theory Spec2Isabelle
  imports Main "HOL-Library.Word" "HOL-Library.AList"
begin

unbundle bit_operations_syntax

section \<open>Python values, strings and exceptions\<close>

text \<open>
  The program is one Python script, \<^verbatim>\<open>config_tool.py\<close>. Strings are lists of
  8-bit characters (code points below 256); Python integers are \<open>int\<close> or, where they
  are counts and regex captures of digits, \<open>nat\<close>. Every exception the script can raise by
  itself is a value of \<open>error\<close>, and a function that can raise returns \<open>error + 'a\<close>.
\<close>

datatype error = AttributeError | ValueError | TypeError | KeyError | IndexError

text \<open>A Python value where the script is dynamically typed: \<^verbatim>\<open>re_match_typed\<close> returns a
  \<^verbatim>\<open>str\<close>, \<^verbatim>\<open>int(...)\<close> an \<^verbatim>\<open>int\<close>.\<close>

datatype pyval = PStr string | PInt int

definition bind :: "error + 'a \<Rightarrow> ('a \<Rightarrow> error + 'b) \<Rightarrow> error + 'b" where
  "bind m f = (case m of Inl e \<Rightarrow> Inl e | Inr x \<Rightarrow> f x)"

text \<open>\<^verbatim>\<open>a - b\<close>: defined on two ints, a TypeError on a str operand.\<close>

fun py_sub :: "pyval \<Rightarrow> pyval \<Rightarrow> error + pyval" where
  "py_sub (PInt a) (PInt b) = Inr (PInt (a - b))"
| "py_sub _ _ = Inl TypeError"

text \<open>\<^verbatim>\<open>a * b\<close> on two ints (the script multiplies nothing else).\<close>

fun py_mul :: "pyval \<Rightarrow> pyval \<Rightarrow> error + pyval" where
  "py_mul (PInt a) (PInt b) = Inr (PInt (a * b))"
| "py_mul _ _ = Inl TypeError"

fun py_add :: "pyval \<Rightarrow> pyval \<Rightarrow> error + pyval" where
  "py_add (PInt a) (PInt b) = Inr (PInt (a + b))"
| "py_add _ _ = Inl TypeError"

subsection \<open>Characters and decimal numerals\<close>

definition is_digit :: "char \<Rightarrow> bool" where
  "is_digit c = (let n = (of_char c :: nat) in 48 \<le> n \<and> n \<le> 57)"

text \<open>\<^verbatim>\<open>\s\<close> of a str pattern: the Unicode white space below code point 256.\<close>

definition is_space :: "char \<Rightarrow> bool" where
  "is_space c = (let n = (of_char c :: nat) in
     (9 \<le> n \<and> n \<le> 13) \<or> (28 \<le> n \<and> n \<le> 32) \<or> n = 133 \<or> n = 160)"

definition digit_val :: "char \<Rightarrow> nat" where
  "digit_val c = (of_char c :: nat) - 48"

definition digit_chr :: "nat \<Rightarrow> char" where
  "digit_chr d = char_of (48 + d)"

text \<open>The value of a string of decimal digits, most significant first.\<close>

definition nat_of_digits :: "string \<Rightarrow> nat" where
  "nat_of_digits s = foldl (\<lambda>acc c. 10 * acc + digit_val c) 0 s"

text \<open>\<^verbatim>\<open>int(s)\<close> for the strings the script passes: a regex capture of digits, or the
  default \<^verbatim>\<open>""\<close> of \<^verbatim>\<open>re_match_typed\<close>, on which \<^verbatim>\<open>int\<close> raises ValueError.\<close>

definition py_int :: "string \<Rightarrow> error + nat" where
  "py_int s = (if s \<noteq> [] \<and> list_all is_digit s then Inr (nat_of_digits s) else Inl ValueError)"

text \<open>\<^verbatim>\<open>str(n)\<close> for a non-negative integer: decimal, no leading zeros.\<close>

fun str_of_nat :: "nat \<Rightarrow> string" where
  "str_of_nat n = (if n < 10 then [digit_chr n] else str_of_nat (n div 10) @ [digit_chr (n mod 10)])"

declare str_of_nat.simps [simp del]

definition py_str_int :: "int \<Rightarrow> string" where
  "py_str_int i = (if i < 0 then CHR ''-'' # str_of_nat (nat (- i)) else str_of_nat (nat i))"

fun py_str :: "pyval \<Rightarrow> string" where
  "py_str (PStr s) = s"
| "py_str (PInt i) = py_str_int i"

subsection \<open>String operations\<close>

text \<open>\<^verbatim>\<open>s.startswith(p)\<close>.\<close>

fun startswith :: "string \<Rightarrow> string \<Rightarrow> bool" where
  "startswith s [] = True"
| "startswith [] (p # ps) = False"
| "startswith (c # cs) (p # ps) = (c = p \<and> startswith cs ps)"

text \<open>\<^verbatim>\<open>sub in s\<close> on strings: \<open>sub\<close> occurs in \<open>s\<close> as a contiguous run.\<close>

fun py_in_str :: "string \<Rightarrow> string \<Rightarrow> bool" where
  "py_in_str sub [] = (sub = [])"
| "py_in_str sub (c # cs) = (startswith (c # cs) sub \<or> py_in_str sub cs)"

text \<open>\<^verbatim>\<open>s.split(sep)\<close> for a one-character separator: never empty, empty fields kept.\<close>

fun split_on :: "char \<Rightarrow> string \<Rightarrow> string list" where
  "split_on sep [] = [[]]"
| "split_on sep (c # cs) =
     (case split_on sep cs of
        [] \<Rightarrow> [[c]]
      | w # ws \<Rightarrow> if c = sep then [] # w # ws else (c # w) # ws)"

text \<open>\<^verbatim>\<open>sep.join(parts)\<close>.\<close>

fun join :: "string \<Rightarrow> string list \<Rightarrow> string" where
  "join sep [] = []"
| "join sep [w] = w"
| "join sep (w # v # ws) = w @ sep @ join sep (v # ws)"

section \<open>Regular expressions of the script\<close>

text \<open>
  The script extracts every field with \<^verbatim>\<open>re.search\<close>, directly or through
  \<^verbatim>\<open>re_match_typed\<close> of the configuration parser. The patterns it uses are built from
  literals, the classes \<^verbatim>\<open>\d \s \S . [\d\.]\<close>, the greedy \<^verbatim>\<open>+\<close> and \<^verbatim>\<open>*\<close>, the
  lazy \<^verbatim>\<open>+?\<close>, unnested groups and the anchors. \<open>rmatch\<close> is a backtracking matcher:
  it lists every way a pattern matches a prefix of the string, in the order in which
  Python's engine tries them, each with its captured groups and the unread rest.
\<close>

datatype cclass = Digit | Space | NonSpace | AnyChar | DigitDot | Exactly char

fun in_class :: "cclass \<Rightarrow> char \<Rightarrow> bool" where
  "in_class Digit c = is_digit c"
| "in_class Space c = is_space c"
| "in_class NonSpace c = (\<not> is_space c)"
| "in_class AnyChar c = (c \<noteq> CHR 0x0A)"
| "in_class DigitDot c = (is_digit c \<or> c = CHR ''.'')"
| "in_class (Exactly d) c = (c = d)"

datatype regex =
    Eps
  | Chr cclass
  | Str string
  | Plus cclass
  | PlusLazy cclass
  | Star cclass
  | Group regex
  | Seq regex regex
  | Eol

text \<open>The numbers of characters a repetition of a class may take, in the order tried.\<close>

definition run_len :: "cclass \<Rightarrow> string \<Rightarrow> nat" where
  "run_len k s = length (takeWhile (in_class k) s)"

fun rmatch :: "regex \<Rightarrow> string \<Rightarrow> (string list \<times> string) list" where
  "rmatch Eps s = [([], s)]"
| "rmatch (Chr k) s = (case s of [] \<Rightarrow> [] | c # cs \<Rightarrow> if in_class k c then [([], cs)] else [])"
| "rmatch (Str p) s = (if startswith s p then [([], drop (length p) s)] else [])"
| "rmatch (Plus k) s = map (\<lambda>n. ([], drop n s)) (rev [1 ..< Suc (run_len k s)])"
| "rmatch (PlusLazy k) s = map (\<lambda>n. ([], drop n s)) [1 ..< Suc (run_len k s)]"
| "rmatch (Star k) s = map (\<lambda>n. ([], drop n s)) (rev [0 ..< Suc (run_len k s)])"
| "rmatch (Group r) s =
     map (\<lambda>(gs, rest). (take (length s - length rest) s # gs, rest)) (rmatch r s)"
| "rmatch (Seq r1 r2) s =
     concat (map (\<lambda>(gs1, rest1). map (\<lambda>(gs2, rest2). (gs1 @ gs2, rest2)) (rmatch r2 rest1))
       (rmatch r1 s))"
| "rmatch Eol s = (if s = [] \<or> s = [CHR 0x0A] then [([], s)] else [])"

text \<open>A pattern that starts with \<^verbatim>\<open>^\<close>: the first match at position 0, as its groups.\<close>

definition re_match :: "regex \<Rightarrow> string \<Rightarrow> string list option" where
  "re_match r s = (case rmatch r s of [] \<Rightarrow> None | (gs, rest) # _ \<Rightarrow> Some gs)"

text \<open>\<^verbatim>\<open>re.search\<close> of an unanchored pattern: the first match at the leftmost position.\<close>

fun re_search :: "regex \<Rightarrow> string \<Rightarrow> string list option" where
  "re_search r [] = re_match r []"
| "re_search r (c # cs) =
     (case re_match r (c # cs) of Some gs \<Rightarrow> Some gs | None \<Rightarrow> re_search r cs)"

text \<open>The sequence of several patterns.\<close>

definition seqs :: "regex list \<Rightarrow> regex" where
  "seqs rs = foldr Seq rs Eps"

text \<open>
  \<^verbatim>\<open>obj.re_match_typed(regex, group=g)\<close> of the configuration parser with its defaults
  \<^verbatim>\<open>result_type=str, default=""\<close>: \<^verbatim>\<open>re.search\<close> on the line's text; the group as a
  string, or \<^verbatim>\<open>""\<close> when the pattern does not match. The first argument tells whether
  the pattern is anchored with \<^verbatim>\<open>^\<close>.
\<close>

definition re_match_typed :: "bool \<Rightarrow> regex \<Rightarrow> nat \<Rightarrow> string \<Rightarrow> string" where
  "re_match_typed anchored r g s =
     (case (if anchored then re_match r s else re_search r s) of
        None \<Rightarrow> []
      | Some gs \<Rightarrow> if 0 < g \<and> g \<le> length gs then gs ! (g - 1) else [])"

section \<open>The IPv4 part of Python's \<^verbatim>\<open>ipaddress\<close> module\<close>

text \<open>
  The script calls \<^verbatim>\<open>ipaddress.ip_network\<close> and \<^verbatim>\<open>ipaddress.ip_address\<close> of the
  standard library. The definitions follow the library's IPv4 classes, function by
  function; every failure is the library's ValueError (AddressValueError and
  NetmaskValueError are subclasses of it). An address is a 32-bit word.
\<close>

type_synonym ip4 = "32 word"

text \<open>\<^verbatim>\<open>_parse_octet\<close>: one to three decimal digits, no leading zero (CPython rejects
  them since 3.9.5), at most 255.\<close>

definition parse_octet :: "string \<Rightarrow> error + nat" where
  "parse_octet s =
     (if s = [] then Inl ValueError
      else if \<not> list_all is_digit s then Inl ValueError
      else if 3 < length s then Inl ValueError
      else if s \<noteq> ''0'' \<and> hd s = CHR ''0'' then Inl ValueError
      else if 255 < nat_of_digits s then Inl ValueError
      else Inr (nat_of_digits s))"

text \<open>All elements of a list of results, or the first error.\<close>

fun sequence :: "(error + 'a) list \<Rightarrow> error + 'a list" where
  "sequence [] = Inr []"
| "sequence (m # ms) = bind m (\<lambda>x. bind (sequence ms) (\<lambda>xs. Inr (x # xs)))"

text \<open>\<^verbatim>\<open>int.from_bytes(octets, 'big')\<close>.\<close>

definition from_bytes :: "nat list \<Rightarrow> ip4" where
  "from_bytes bs = foldl (\<lambda>acc b. push_bit 8 acc + of_nat b) 0 bs"

text \<open>\<^verbatim>\<open>_ip_int_from_string\<close>: exactly four octets separated by dots.\<close>

definition ip_int_from_string :: "string \<Rightarrow> error + ip4" where
  "ip_int_from_string s =
     (if s = [] then Inl ValueError
      else let octets = split_on CHR ''.'' s in
        if length octets \<noteq> 4 then Inl ValueError
        else bind (sequence (map parse_octet octets)) (\<lambda>bs. Inr (from_bytes bs)))"

text \<open>\<^verbatim>\<open>IPv4Address(s)\<close>, and \<^verbatim>\<open>ipaddress.ip_address(s)\<close> for a string that is no IPv6
  address. The library tries \<^verbatim>\<open>IPv4Address\<close> first and \<^verbatim>\<open>IPv6Address\<close> second, and the
  second refuses every string with fewer than two colons; so the definition is the
  library's result for all those strings, among them the addresses that the script
  extracts from the configuration, which are made of digits and dots. IPv6 is outside the
  model: for a default gateway written as a valid IPv6 address the library returns an
  \<^verbatim>\<open>IPv6Address\<close>, which is in no IPv4 network, where the definition gives ValueError.
  The statements below that involve the gateway are about gateways with fewer than two
  colons.\<close>

definition ipaddress_ip_address :: "string \<Rightarrow> error + ip4" where
  "ipaddress_ip_address s = (if CHR ''/'' \<in> set s then Inl ValueError else ip_int_from_string s)"

text \<open>\<^verbatim>\<open>_count_righthand_zero_bits(number, 32)\<close>.\<close>

definition count_righthand_zero_bits :: "ip4 \<Rightarrow> nat" where
  "count_righthand_zero_bits w =
     (if w = 0 then 32 else length (takeWhile (\<lambda>i. \<not> bit w i) [0 ..< 32]))"

text \<open>\<^verbatim>\<open>_prefix_from_ip_int\<close>: the prefix length of a mask of the form ones then zeroes.\<close>

definition prefix_from_ip_int :: "ip4 \<Rightarrow> error + nat" where
  "prefix_from_ip_int w =
     (let trailing_zeroes = count_righthand_zero_bits w;
          prefixlen = 32 - trailing_zeroes;
          leading_ones = drop_bit trailing_zeroes w;
          all_ones = (2 ^ prefixlen - 1 :: int)
      in if uint leading_ones \<noteq> all_ones then Inl ValueError else Inr prefixlen)"

text \<open>\<^verbatim>\<open>_prefix_from_prefix_string\<close>: a prefix length written in decimal.\<close>

definition prefix_from_prefix_string :: "string \<Rightarrow> error + nat" where
  "prefix_from_prefix_string s =
     (if \<not> (s \<noteq> [] \<and> list_all is_digit s) then Inl ValueError
      else if \<not> nat_of_digits s \<le> 32 then Inl ValueError
      else Inr (nat_of_digits s))"

text \<open>\<^verbatim>\<open>_prefix_from_ip_string\<close>: a dotted netmask, or else a dotted hostmask.\<close>

definition prefix_from_ip_string :: "string \<Rightarrow> error + nat" where
  "prefix_from_ip_string s =
     (case ip_int_from_string s of
        Inl e \<Rightarrow> Inl ValueError
      | Inr ip_int \<Rightarrow>
          (case prefix_from_ip_int ip_int of
             Inr p \<Rightarrow> Inr p
           | Inl e \<Rightarrow>
               (case prefix_from_ip_int (ip_int XOR (- 1)) of
                  Inr p \<Rightarrow> Inr p
                | Inl e' \<Rightarrow> Inl ValueError)))"

text \<open>\<^verbatim>\<open>_ip_int_from_prefix\<close>: \<^verbatim>\<open>ALL_ONES ^ (ALL_ONES >> prefixlen)\<close>.\<close>

definition ip_int_from_prefix :: "nat \<Rightarrow> ip4" where
  "ip_int_from_prefix p = (- 1) XOR drop_bit p (- 1)"

text \<open>\<^verbatim>\<open>_make_netmask\<close> for a string: the prefix-length form first, then the dotted form.\<close>

definition make_netmask :: "string \<Rightarrow> error + (ip4 \<times> nat)" where
  "make_netmask arg =
     bind (case prefix_from_prefix_string arg of
             Inr p \<Rightarrow> Inr p
           | Inl e \<Rightarrow> prefix_from_ip_string arg)
       (\<lambda>prefixlen. Inr (ip_int_from_prefix prefixlen, prefixlen))"

record network =
  network_address :: ip4
  netmask :: ip4
  prefixlen :: nat

text \<open>
  \<^verbatim>\<open>ipaddress.ip_network(s, strict)\<close>, that is \<^verbatim>\<open>IPv4Network(s, strict)\<close>: the string is
  split at \<^verbatim>\<open>/\<close> (more than one is an error; none means a prefix of 32), the address
  and the mask are parsed, and host bits in the address are an error when \<open>strict\<close>
  and are masked off otherwise.
\<close>

definition ipaddress_ip_network :: "string \<Rightarrow> bool \<Rightarrow> error + network" where
  "ipaddress_ip_network s strict =
     (case split_on CHR ''/'' s of
        [] \<Rightarrow> Inl ValueError
      | a # ms \<Rightarrow>
          if 1 < length ms then Inl ValueError
          else
            bind (ipaddress_ip_address a) (\<lambda>packed.
            bind (case ms of [] \<Rightarrow> Inr (ip_int_from_prefix 32, 32) | m # _ \<Rightarrow> make_netmask m)
              (\<lambda>(msk, plen).
                 if packed AND msk \<noteq> packed then
                   (if strict then Inl ValueError
                    else Inr \<lparr>network_address = packed AND msk, netmask = msk,
                              prefixlen = plen\<rparr>)
                 else Inr \<lparr>network_address = packed, netmask = msk, prefixlen = plen\<rparr>)))"

text \<open>\<^verbatim>\<open>str(IPv4Address)\<close>: the four bytes in decimal, joined by dots.\<close>

definition string_from_ip_int :: "ip4 \<Rightarrow> string" where
  "string_from_ip_int w =
     join ''.'' (map (\<lambda>i. str_of_nat (unat (drop_bit (8 * i) w AND 255))) [3, 2, 1, 0])"

text \<open>\<^verbatim>\<open>str(IPv4Network)\<close>: \<^verbatim>\<open>'%s/%d' % (network_address, prefixlen)\<close>.\<close>

definition str_network :: "network \<Rightarrow> string" where
  "str_network n = string_from_ip_int (network_address n) @ ''/'' @ str_of_nat (prefixlen n)"

text \<open>\<^verbatim>\<open>address in network\<close>.\<close>

definition net_contains :: "network \<Rightarrow> ip4 \<Rightarrow> bool" where
  "net_contains n a = (a AND netmask n = network_address n)"

section \<open>The parsed configuration\<close>

text \<open>
  \<^verbatim>\<open>CiscoConfParse(file_path, syntax="ios")\<close> turns the text of the running
  configuration into objects, one per line, each with its text (indentation included) and
  its direct children (the lines indented below it). The script only searches for lines
  that start at column 0 with \<^verbatim>\<open>interface\<close> and reads their direct children, so the
  parsed configuration is the list of its top-level objects, in file order.
\<close>

record ios_obj =
  obj_text :: string
  obj_children :: "string list"

text \<open>\<^verbatim>\<open>parse.find_objects(regex)\<close> for a pattern anchored with \<^verbatim>\<open>^\<close>.\<close>

definition find_objects :: "regex \<Rightarrow> ios_obj list \<Rightarrow> ios_obj list" where
  "find_objects r cfg = filter (\<lambda>obj. re_match r (obj_text obj) \<noteq> None) cfg"


text \<open>A \<^verbatim>\<open>for\<close> loop whose body may raise: the state after the last element, or the
  first exception.\<close>

fun for_each :: "('s \<Rightarrow> 'a \<Rightarrow> error + 's) \<Rightarrow> 's \<Rightarrow> 'a list \<Rightarrow> error + 's" where
  "for_each body s [] = Inr s"
| "for_each body s (x # xs) = bind (body s x) (\<lambda>s'. for_each body s' xs)"

section \<open>\<^verbatim>\<open>parse_svi_data\<close>\<close>

text \<open>An SVI record, the dictionary \<^verbatim>\<open>svi_data[vlan_id]\<close>; \<^verbatim>\<open>defaultGateway\<close> is the key
  that \<^verbatim>\<open>create_default_svi\<close> adds.\<close>

record svi =
  name :: string
  vlanId :: string
  interfaceIp :: string
  subnet :: string
  defaultGateway :: "string option"

text \<open>A Python dictionary keeps its keys in insertion order: an association list with
  distinct keys. \<open>AList.update\<close> is the assignment \<^verbatim>\<open>d[k] = v\<close> (a present key keeps its
  place, a new key goes last), \<open>AList.delete\<close> is \<^verbatim>\<open>del d[k]\<close> for a present key.\<close>

type_synonym svi_dict = "(string \<times> svi) list"

text \<open>\<^verbatim>\<open>r"^interface Vlan"\<close>\<close>

definition interface_vlan_re :: regex where
  "interface_vlan_re = Str ''interface Vlan''"

text \<open>\<^verbatim>\<open>r"\d+"\<close>, read with \<^verbatim>\<open>.group()\<close>: the whole match is the one group.\<close>

definition vlan_id_re :: regex where
  "vlan_id_re = Group (Plus Digit)"

text \<open>\<^verbatim>\<open>r"description\s(.+)"\<close>\<close>

definition description_re :: regex where
  "description_re = seqs [Str ''description'', Chr Space, Group (Plus AnyChar)]"

text \<open>\<^verbatim>\<open>r"ip\saddress\s([\d\.]+)\s([\d\.]+)"\<close>\<close>

definition ip_address_re :: regex where
  "ip_address_re =
     seqs [Str ''ip'', Chr Space, Str ''address'', Chr Space, Group (Plus DigitDot),
           Chr Space, Group (Plus DigitDot)]"

text \<open>The body of \<^verbatim>\<open>for child in vlan.children\<close> on the three variables
  \<^verbatim>\<open>(description, ip_address, subnet_mask)\<close>.\<close>

fun svi_child :: "string \<times> string \<times> string \<Rightarrow> string \<Rightarrow> string \<times> string \<times> string" where
  "svi_child (description, ip_address, subnet_mask) child =
     (if py_in_str ''description'' child then
        (re_match_typed False description_re 1 child, ip_address, subnet_mask)
      else if py_in_str ''ip address'' child then
        (description, re_match_typed False ip_address_re 1 child,
         re_match_typed False ip_address_re 2 child)
      else (description, ip_address, subnet_mask))"

definition svi_fields :: "ios_obj \<Rightarrow> string \<times> string \<times> string" where
  "svi_fields vlan_obj = foldl svi_child ([], [], []) (obj_children vlan_obj)"

text \<open>\<^verbatim>\<open>re.search(r"\d+", vlan.text).group()\<close>: an AttributeError on \<^verbatim>\<open>None\<close> when the
  header has no digit.\<close>

definition vlan_id_of :: "ios_obj \<Rightarrow> error + string" where
  "vlan_id_of vlan_obj =
     (case re_search vlan_id_re (obj_text vlan_obj) of
        Some (g # gs) \<Rightarrow> Inr g
      | _ \<Rightarrow> Inl AttributeError)"

text \<open>The body of \<^verbatim>\<open>for vlan in vlans\<close> on the dictionary \<^verbatim>\<open>svi_data\<close>.\<close>

definition svi_step :: "svi_dict \<Rightarrow> ios_obj \<Rightarrow> error + svi_dict" where
  "svi_step svi_data vlan_obj =
     bind (vlan_id_of vlan_obj) (\<lambda>vlan_id.
       case svi_fields vlan_obj of (description, ip_address, subnet_mask) \<Rightarrow>
         if vlan_id \<notin> set (map fst svi_data) \<and> ip_address \<noteq> [] \<and> subnet_mask \<noteq> [] then
           bind (ipaddress_ip_network (ip_address @ ''/'' @ subnet_mask) False) (\<lambda>net.
             Inr (AList.update vlan_id
               \<lparr>name = (if description \<noteq> [] then description else ''Vlan'' @ vlan_id),
                vlanId = vlan_id,
                interfaceIp = ip_address,
                subnet = str_network net,
                defaultGateway = None\<rparr> svi_data))
         else Inr svi_data)"

definition parse_svi_data :: "ios_obj list \<Rightarrow> error + svi_dict" where
  "parse_svi_data cfg = for_each svi_step [] (find_objects interface_vlan_re cfg)"

section \<open>\<^verbatim>\<open>parse_shut_intf\<close>\<close>

text \<open>\<^verbatim>\<open>"^interface"\<close>, \<^verbatim>\<open>"^\s+shutdown"\<close> and \<^verbatim>\<open>"^interface\s+(\S.+?)$"\<close>\<close>

definition interface_re :: regex where
  "interface_re = Str ''interface''"




section \<open>\<^verbatim>\<open>parse_intf_config\<close>\<close>

text \<open>
  An interface-config record, the dictionary \<^verbatim>\<open>intf_configs[intf_name]\<close>. Its keys
  \<^verbatim>\<open>name\<close> and \<^verbatim>\<open>type\<close> are the fields \<open>p_name\<close> and \<open>p_type\<close>; \<^verbatim>\<open>portId\<close> is always
  set, every other key may be absent. \<^verbatim>\<open>enabled\<close> is set by \<^verbatim>\<open>configure_meraki\<close>.
\<close>

record port =
  portId :: string
  module :: "int option"
  p_name :: "string option"
  p_type :: "string option"
  voiceVlan :: "string option"
  vlan :: "string option"
  allowedVlans :: "string option"
  enabled :: "bool option"

type_synonym port_dict = "(string \<times> port) list"

text \<open>\<^verbatim>\<open>"^interface\s+(\S.*)$"\<close>\<close>

definition intf_name_re :: regex where
  "intf_name_re =
     seqs [Str ''interface'', Plus Space, Group (Seq (Chr NonSpace) (Star AnyChar)), Eol]"

text \<open>\<^verbatim>\<open>"^interface\s\S+?thernet+(\d)"\<close>\<close>

definition switch_module_re :: regex where
  "switch_module_re =
     seqs [Str ''interface'', Chr Space, PlusLazy NonSpace, Str ''therne'',
           Plus (Exactly CHR ''t''), Group (Chr Digit)]"

text \<open>\<^verbatim>\<open>"^interface\s\S+?thernet\d.\d.(\d+)"\<close>\<close>

definition port_number_re :: regex where
  "port_number_re =
     seqs [Str ''interface'', Chr Space, PlusLazy NonSpace, Str ''thernet'',
           Chr Digit, Chr AnyChar, Chr Digit, Chr AnyChar, Group (Plus Digit)]"

text \<open>\<^verbatim>\<open>r"\sswitchport\smode\s+(.+)"\<close>, \<^verbatim>\<open>r"\sswitchport\svoice\svlan\s+(\d+)"\<close>,
  \<^verbatim>\<open>r"\sswitchport\saccess\svlan\s+(\S.*)"\<close>,
  \<^verbatim>\<open>r"\sswitchport\strunk\snative\svlan\s+(.*)"\<close> and
  \<^verbatim>\<open>r"\sswitchport\strunk\sallowed\svlan\s+(.*)"\<close>\<close>

definition port_mode_re :: regex where
  "port_mode_re =
     seqs [Chr Space, Str ''switchport'', Chr Space, Str ''mode'', Plus Space,
           Group (Plus AnyChar)]"

definition voice_vlan_re :: regex where
  "voice_vlan_re =
     seqs [Chr Space, Str ''switchport'', Chr Space, Str ''voice'', Chr Space, Str ''vlan'',
           Plus Space, Group (Plus Digit)]"

definition data_vlan_re :: regex where
  "data_vlan_re =
     seqs [Chr Space, Str ''switchport'', Chr Space, Str ''access'', Chr Space, Str ''vlan'',
           Plus Space, Group (Seq (Chr NonSpace) (Star AnyChar))]"

definition trunk_native_re :: regex where
  "trunk_native_re =
     seqs [Chr Space, Str ''switchport'', Chr Space, Str ''trunk'', Chr Space, Str ''native'',
           Chr Space, Str ''vlan'', Plus Space, Group (Star AnyChar)]"

definition vlan_allowed_re :: regex where
  "vlan_allowed_re =
     seqs [Chr Space, Str ''switchport'', Chr Space, Str ''trunk'', Chr Space, Str ''allowed'',
           Chr Space, Str ''vlan'', Plus Space, Group (Star AnyChar)]"

text \<open>\<^verbatim>\<open>re.sub("\d+|\\/", "", intf_name)\<close>: every digit and every slash is removed.\<close>

definition only_intf_name_of :: "string \<Rightarrow> string" where
  "only_intf_name_of intf_name = filter (\<lambda>c. \<not> (is_digit c \<or> c = CHR ''/'')) intf_name"

text \<open>\<^verbatim>\<open>d[key] = v if v != ""\<close>, on one optional field.\<close>

definition set_if :: "string \<Rightarrow> string option \<Rightarrow> string option" where
  "set_if v old = (if v \<noteq> [] then Some v else old)"

text \<open>The body of \<^verbatim>\<open>for child in intf_obj.children\<close> on the record under construction.\<close>

definition intf_child :: "port \<Rightarrow> string \<Rightarrow> port" where
  "intf_child c child =
     (let c1 = c\<lparr>p_name := set_if (re_match_typed False description_re 1 child) (p_name c)\<rparr>;
          c2 = c1\<lparr>p_type := set_if (re_match_typed False port_mode_re 1 child) (p_type c1)\<rparr>;
          c3 = c2\<lparr>voiceVlan := set_if (re_match_typed False voice_vlan_re 1 child) (voiceVlan c2)\<rparr>;
          c4 = c3\<lparr>vlan := set_if (re_match_typed False data_vlan_re 1 child) (vlan c3)\<rparr>;
          c5 = c4\<lparr>vlan := set_if (re_match_typed False trunk_native_re 1 child) (vlan c4)\<rparr>
      in c5\<lparr>allowedVlans := set_if (re_match_typed False vlan_allowed_re 1 child) (allowedVlans c5)\<rparr>)"

text \<open>The three values read from the header of an interface object. All three are
  strings: \<^verbatim>\<open>re_match_typed\<close> is called with its default result type.\<close>

definition intf_name_of :: "ios_obj \<Rightarrow> string" where
  "intf_name_of intf_obj = re_match_typed True intf_name_re 1 (obj_text intf_obj)"

definition switch_module_of :: "ios_obj \<Rightarrow> string" where
  "switch_module_of intf_obj = re_match_typed True switch_module_re 1 (obj_text intf_obj)"

definition port_number_of :: "ios_obj \<Rightarrow> string" where
  "port_number_of intf_obj = re_match_typed True port_number_re 1 (obj_text intf_obj)"

text \<open>The test \<^verbatim>\<open>only_intf_name.startswith("Giga") and port_number != ""\<close>: the interface
  is a downlink interface and is retained.\<close>

definition retained :: "ios_obj \<Rightarrow> bool" where
  "retained intf_obj =
     (startswith (only_intf_name_of (intf_name_of intf_obj)) ''Giga'' \<and> port_number_of intf_obj \<noteq> [])"

text \<open>
  The port-number part of the loop body (lines 185 to 200): from \<^verbatim>\<open>module_counter\<close>,
  the string \<^verbatim>\<open>switch_module\<close> and the integer \<^verbatim>\<open>port_number\<close> to the new
  \<^verbatim>\<open>module_counter\<close>, the new \<^verbatim>\<open>port_number\<close> and the \<^verbatim>\<open>module\<close> key. In the branch
  for one switch the script computes \<^verbatim>\<open>module_counter * (switch_module - 1)\<close> on the
  string \<^verbatim>\<open>switch_module\<close>; only the branch for several switches rebinds it to an int.
\<close>

definition remap :: "nat \<Rightarrow> int \<Rightarrow> string \<Rightarrow> int \<Rightarrow> error + (int \<times> pyval \<times> int option)" where
  "remap num_switches module_counter switch_module port_number =
     (if num_switches = 1 then
        bind (py_int switch_module) (\<lambda>m.
          if m = 1 then Inr (module_counter + 1, PInt port_number, None)
          else if m > 1 then
            bind (py_sub (PStr switch_module) (PInt 1)) (\<lambda>d.
            bind (py_mul (PInt module_counter) d) (\<lambda>off.
            bind (py_add (PInt port_number) off) (\<lambda>port_number'.
              Inr (module_counter, port_number', None))))
          else Inr (module_counter, PInt port_number, None))
      else if num_switches > 1 then
        bind (py_int switch_module) (\<lambda>m. Inr (module_counter, PInt port_number, Some (int m)))
      else Inr (module_counter, PInt port_number, None))"

text \<open>The body of \<^verbatim>\<open>for intf_obj in interfaces\<close> on \<^verbatim>\<open>(module_counter, intf_configs)\<close>.\<close>

definition intf_step :: "nat \<Rightarrow> int \<times> port_dict \<Rightarrow> ios_obj \<Rightarrow> error + (int \<times> port_dict)" where
  "intf_step num_switches st intf_obj =
     (case st of (module_counter, intf_configs) \<Rightarrow>
        if retained intf_obj then
          bind (py_int (port_number_of intf_obj)) (\<lambda>port_number.
          bind (remap num_switches module_counter (switch_module_of intf_obj) (int port_number))
            (\<lambda>(module_counter', port_number', module').
               Inr (module_counter',
                    AList.update (intf_name_of intf_obj)
                      (foldl intf_child
                         \<lparr>portId = py_str port_number', module = module', p_name = None,
                          p_type = None, voiceVlan = None, vlan = None, allowedVlans = None,
                          enabled = None\<rparr>
                         (obj_children intf_obj))
                      intf_configs)))
        else Inr (module_counter, intf_configs))"

definition parse_intf_config :: "ios_obj list \<Rightarrow> nat \<Rightarrow> error + port_dict" where
  "parse_intf_config cfg num_switches =
     bind (for_each (intf_step num_switches) (0, []) (find_objects interface_re cfg))
       (\<lambda>(module_counter, intf_configs). Inr intf_configs)"

section \<open>\<^verbatim>\<open>configure_meraki\<close>\<close>

text \<open>
  What the run does to the outside is the sequence of its calls to the dashboard client,
  \<^verbatim>\<open>getDeviceSwitchRoutingInterfaces(serial)\<close>,
  \<^verbatim>\<open>createDeviceSwitchRoutingInterface(serial, **record)\<close> and
  \<^verbatim>\<open>updateDeviceSwitchPort(serial, **record)\<close>, and the error it prints when no default
  gateway was set ("Error: ... does not exist on SVI", "Cannot proceed without Default
  Gateway. Exiting program..."). A run ends by finishing, by the early \<^verbatim>\<open>return\<close> of
  line 301, or by an exception. The calls themselves are taken to succeed.
\<close>

datatype event =
    GetDeviceSwitchRoutingInterfaces string
  | CreateDeviceSwitchRoutingInterface string svi
  | UpdateDeviceSwitchPort string port
  | PrintNoGatewayError

datatype outcome = Finished | Returned_early | Raised error

text \<open>A routed interface as the dashboard lists it; the script reads its \<^verbatim>\<open>vlanId\<close>
  only. The dashboard is a parameter: its answer to the listing call for a device, given
  the calls the run has issued before.\<close>

record routed_interface =
  ri_vlanId :: pyval
  ri_defaultGateway :: "string option"

type_synonym dashboard = "event list \<Rightarrow> string \<Rightarrow> routed_interface list"

text \<open>\<^verbatim>\<open>check_default_gateway(meraki_svis)\<close>, on the list of strings that
  \<^verbatim>\<open>configure_meraki\<close> passes: \<^verbatim>\<open>"defaultGateway" in svi\<close> is a substring test.\<close>

definition check_default_gateway :: "string list \<Rightarrow> bool" where
  "check_default_gateway meraki_svis = list_ex (py_in_str ''defaultGateway'') meraki_svis"

text \<open>\<^verbatim>\<open>create_default_svi(vlan_info, default_gateway, dash, serial)\<close>: the record as the
  function leaves it, the calls it issued, and what it returns (\<open>None\<close> is Python's
  \<^verbatim>\<open>None\<close>) or raises.\<close>

definition create_default_svi ::
    "svi \<Rightarrow> string \<Rightarrow> string \<Rightarrow> svi \<times> event list \<times> (error + string option)" where
  "create_default_svi vlan_info default_gateway serial =
     (case ipaddress_ip_network (subnet vlan_info) True of
        Inl e \<Rightarrow> (vlan_info, [], Inl e)
      | Inr net \<Rightarrow>
          (case ipaddress_ip_address default_gateway of
             Inl e \<Rightarrow> (vlan_info, [], Inl e)
           | Inr gw \<Rightarrow>
               if net_contains net gw then
                 (let vlan_info' = vlan_info\<lparr>defaultGateway := Some default_gateway\<rparr>
                  in (vlan_info', [CreateDeviceSwitchRoutingInterface serial vlan_info'],
                      Inr (Some (vlanId vlan_info'))))
               else (vlan_info, [], Inr None)))"

text \<open>
  The loop \<^verbatim>\<open>for vlan_info in svi_data.values()\<close> of lines 291 to 301 for one device,
  over the entries still to visit: the entries as the loop leaves them, the variable
  \<^verbatim>\<open>default_svi\<close>, the calls issued, and how the loop ended.
\<close>

fun scan_svis :: "string \<Rightarrow> string \<Rightarrow> svi_dict \<Rightarrow> string
    \<Rightarrow> svi_dict \<times> string \<times> event list \<times> outcome" where
  "scan_svis default_gateway serial [] default_svi = ([], default_svi, [], Finished)"
| "scan_svis default_gateway serial ((k, vlan_info) # rest) default_svi =
     (case ipaddress_ip_network (subnet vlan_info) True of
        Inl e \<Rightarrow> ((k, vlan_info) # rest, default_svi, [], Raised e)
      | Inr net \<Rightarrow>
          (case ipaddress_ip_address default_gateway of
             Inl e \<Rightarrow> ((k, vlan_info) # rest, default_svi, [], Raised e)
           | Inr gw \<Rightarrow>
               if net_contains net gw then
                 (case create_default_svi vlan_info default_gateway serial of
                    (vlan_info', evs, Inl e) \<Rightarrow>
                      ((k, vlan_info') # rest, default_svi, evs, Raised e)
                  | (vlan_info', evs, Inr None) \<Rightarrow>
                      ((k, vlan_info') # rest, default_svi, evs, Returned_early)
                  | (vlan_info', evs, Inr (Some v)) \<Rightarrow>
                      (case scan_svis default_gateway serial rest v of
                         (rest', default_svi', evs', out) \<Rightarrow>
                           ((k, vlan_info') # rest', default_svi', evs @ evs', out)))
               else
                 (case scan_svis default_gateway serial rest default_svi of
                    (rest', default_svi', evs', out) \<Rightarrow>
                      ((k, vlan_info) # rest', default_svi', evs', out))))"

text \<open>
  The loop \<^verbatim>\<open>for serial in serials\<close> of lines 283 to 301. \<open>log\<close> holds the calls issued
  so far; the result has the dictionary, \<^verbatim>\<open>default_svi\<close>, the whole log and how the loop
  ended.
\<close>

fun scan_serials :: "dashboard \<Rightarrow> string \<Rightarrow> string list \<Rightarrow> svi_dict \<Rightarrow> string \<Rightarrow> event list
    \<Rightarrow> svi_dict \<times> string \<times> event list \<times> outcome" where
  "scan_serials dash default_gateway [] svi_data default_svi log =
     (svi_data, default_svi, log, Finished)"
| "scan_serials dash default_gateway (serial # serials) svi_data default_svi log =
     (let meraki_svi_response = dash log serial;
          log1 = log @ [GetDeviceSwitchRoutingInterfaces serial];
          meraki_svis = map (\<lambda>s. py_str (ri_vlanId s)) meraki_svi_response
      in if \<not> check_default_gateway meraki_svis then
           (case scan_svis default_gateway serial svi_data default_svi of
              (svi_data', default_svi', evs, out) \<Rightarrow>
                if out = Finished then
                  scan_serials dash default_gateway serials svi_data' default_svi' (log1 @ evs)
                else (svi_data', default_svi', log1 @ evs, out))
         else scan_serials dash default_gateway serials svi_data default_svi log1)"

text \<open>\<^verbatim>\<open>xs[i]\<close>: a negative index counts from the end, an index out of range raises.\<close>

definition py_index :: "'a list \<Rightarrow> int \<Rightarrow> error + 'a" where
  "py_index xs i =
     (if 0 \<le> i \<and> i < int (length xs) then Inr (xs ! nat i)
      else if i < 0 \<and> - int (length xs) \<le> i then Inr (xs ! nat (int (length xs) + i))
      else Inl IndexError)"

text \<open>The loop of lines 317 to 326: every remaining record, on every device.\<close>

definition create_svis :: "string list \<Rightarrow> svi_dict \<Rightarrow> event list" where
  "create_svis serials svi_data =
     concat (map (\<lambda>(vlan_key, vlan_info).
       map (\<lambda>serial. CreateDeviceSwitchRoutingInterface serial vlan_info) serials) svi_data)"

text \<open>The body of \<^verbatim>\<open>for intf in intf_configs\<close> (lines 333 to 350): the call for one
  record, or the IndexError of \<^verbatim>\<open>serials[switch_num-1]\<close>.\<close>

definition update_port :: "string list \<Rightarrow> string list \<Rightarrow> string \<times> port \<Rightarrow> error + event" where
  "update_port serials shut_interfaces entry =
     (case entry of (intf, c) \<Rightarrow>
        let c1 = c\<lparr>enabled := Some (intf \<notin> set shut_interfaces)\<rparr>;
            switch_num = (case module c1 of Some m \<Rightarrow> m | None \<Rightarrow> 1);
            c2 = c1\<lparr>module := None\<rparr>
        in bind (py_index serials (switch_num - 1)) (\<lambda>serial.
             Inr (UpdateDeviceSwitchPort serial c2)))"

text \<open>The loop itself: the calls issued until the first exception.\<close>

fun update_ports :: "string list \<Rightarrow> string list \<Rightarrow> port_dict \<Rightarrow> event list \<times> outcome" where
  "update_ports serials shut_interfaces [] = ([], Finished)"
| "update_ports serials shut_interfaces (entry # rest) =
     (case update_port serials shut_interfaces entry of
        Inl e \<Rightarrow> ([], Raised e)
      | Inr ev \<Rightarrow>
          (case update_ports serials shut_interfaces rest of (evs, out) \<Rightarrow> (ev # evs, out)))"

text \<open>Lines 303 to 308: \<^verbatim>\<open>del svi_data[default_svi]\<close>, a KeyError on a missing key, when
  a default SVI was recorded; the printed error, and nothing else, when none was.\<close>

definition remove_default :: "svi_dict \<Rightarrow> string \<Rightarrow> error + (svi_dict \<times> event list)" where
  "remove_default svi_data default_svi =
     (if default_svi \<noteq> [] then
        (if default_svi \<in> set (map fst svi_data) then Inr (AList.delete default_svi svi_data, [])
         else Inl KeyError)
      else Inr (svi_data, [PrintNoGatewayError]))"

definition configure_meraki ::
    "dashboard \<Rightarrow> string \<Rightarrow> string list \<Rightarrow> svi_dict \<Rightarrow> string list \<Rightarrow> port_dict
     \<Rightarrow> event list \<times> outcome" where
  "configure_meraki dash default_gateway serials svi_data shut_interfaces intf_configs =
     (case scan_serials dash default_gateway serials svi_data [] [] of
        (svi_data1, default_svi, log1, out1) \<Rightarrow>
          if out1 = Finished then
            (case remove_default svi_data1 default_svi of
               Inl e \<Rightarrow> (log1, Raised e)
             | Inr (svi_data2, evs2) \<Rightarrow>
                 (case update_ports serials shut_interfaces intf_configs of
                    (evs4, out4) \<Rightarrow>
                      (log1 @ evs2 @ create_svis serials svi_data2 @ evs4, out4)))
          else (log1, out1))"

section \<open>\<^verbatim>\<open>main\<close>\<close>


section \<open>Notions used in the statements\<close>

text \<open>A VLAN-interface block in which both an IP address and a subnet mask were found.\<close>

definition has_ip_and_mask :: "ios_obj \<Rightarrow> bool" where
  "has_ip_and_mask vlan_obj =
     (case svi_fields vlan_obj of (description, ip_address, subnet_mask) \<Rightarrow>
        ip_address \<noteq> [] \<and> subnet_mask \<noteq> [])"

text \<open>The records sent by the update-port calls of a run, in the order of the calls.\<close>

fun update_payloads :: "event list \<Rightarrow> port list" where
  "update_payloads [] = []"
| "update_payloads (UpdateDeviceSwitchPort serial c # evs) = c # update_payloads evs"
| "update_payloads (ev # evs) = update_payloads evs"

text \<open>An interface-config record with a port number, a module and no other key.\<close>

definition plain_port :: "string \<Rightarrow> int option \<Rightarrow> port" where
  "plain_port pid m =
     \<lparr>portId = pid, module = m, p_name = None, p_type = None, voiceVlan = None, vlan = None,
      allowedVlans = None, enabled = None\<rparr>"

text \<open>A configuration object from its line and the lines of its direct children; an
  interface object with no children.\<close>

definition block :: "string \<Rightarrow> string list \<Rightarrow> ios_obj" where
  "block line children = \<lparr>obj_text = line, obj_children = children\<rparr>"

definition header :: "string \<Rightarrow> ios_obj" where
  "header line = block line []"

text \<open>The SVI record of a VLAN id with no description: its name is \<^verbatim>\<open>Vlan\<close> and the id.\<close>

definition vlan_record :: "string \<Rightarrow> string \<Rightarrow> string \<Rightarrow> string option \<Rightarrow> svi" where
  "vlan_record vlan_id ip cidr gw =
     \<lparr>name = ''Vlan'' @ vlan_id, vlanId = vlan_id, interfaceIp = ip, subnet = cidr,
      defaultGateway = gw\<rparr>"

text \<open>The header of the Gigabit interface of a stacking unit and a port, as
  \<^verbatim>\<open>interface GigabitEthernet2/0/5\<close>.\<close>

definition gig :: "nat \<Rightarrow> nat \<Rightarrow> ios_obj" where
  "gig unit_no port_no =
     header (''interface GigabitEthernet'' @ str_of_nat unit_no @ ''/0/'' @ str_of_nat port_no)"

text \<open>The record that the update-port call for an entry of \<^verbatim>\<open>intf_configs\<close> sends:
  \<^verbatim>\<open>enabled\<close> set from the shutdown list, \<^verbatim>\<open>module\<close> deleted.\<close>

definition port_payload :: "string list \<Rightarrow> string \<times> port \<Rightarrow> port" where
  "port_payload shut_interfaces entry =
     (case entry of (intf, c) \<Rightarrow> c\<lparr>enabled := Some (intf \<notin> set shut_interfaces), module := None\<rparr>)"

text \<open>The test of lines 292 to 294 on one SVI record: does its subnet contain the default
  gateway? Either call may raise.\<close>

definition gateway_in :: "string \<Rightarrow> svi \<Rightarrow> error + bool" where
  "gateway_in default_gateway vlan_info =
     bind (ipaddress_ip_network (subnet vlan_info) True) (\<lambda>net.
     bind (ipaddress_ip_address default_gateway) (\<lambda>gw. Inr (net_contains net gw)))"

definition bears_gateway :: "string \<Rightarrow> string \<times> svi \<Rightarrow> bool" where
  "bears_gateway default_gateway entry = (gateway_in default_gateway (snd entry) = Inr True)"

text \<open>An entry of \<^verbatim>\<open>svi_data\<close> after the scan: a gateway-bearing record has the key
  \<^verbatim>\<open>defaultGateway\<close> set, any other record is as it was.\<close>

definition flag_gateway :: "string \<Rightarrow> string \<times> svi \<Rightarrow> string \<times> svi" where
  "flag_gateway default_gateway entry =
     (case entry of (k, vlan_info) \<Rightarrow>
        (k, if gateway_in default_gateway vlan_info = Inr True
            then vlan_info\<lparr>defaultGateway := Some default_gateway\<rparr> else vlan_info))"

section \<open>Facts about the model\<close>

subsection \<open>Exceptions and loops\<close>

lemma bind_Inr [simp]: "bind (Inr x) f = f x"
  by (simp add: bind_def)

lemma bind_Inl [simp]: "bind (Inl e) f = Inl e"
  by (simp add: bind_def)

lemma bind_eq_Inr: "bind m f = Inr y \<longleftrightarrow> (\<exists>x. m = Inr x \<and> f x = Inr y)"
  by (cases m) simp_all

lemma for_each_append:
  "for_each body s (xs @ ys) = bind (for_each body s xs) (\<lambda>s'. for_each body s' ys)"
proof (induction xs arbitrary: s)
  case Nil
  show ?case by simp
next
  case (Cons x xs)
  show ?case by (cases "body s x") (simp_all add: Cons.IH)
qed

subsection \<open>The port loop\<close>

lemma py_index_in_range:
  "0 \<le> i \<Longrightarrow> i < int (length xs) \<Longrightarrow> py_index xs i = Inr (xs ! nat i)"
  by (simp add: py_index_def)

lemma py_index_above: "int (length xs) \<le> i \<Longrightarrow> py_index xs i = Inl IndexError"
  by (simp add: py_index_def)

lemma py_index_error: "py_index xs i = Inl e \<Longrightarrow> e = IndexError"
  by (simp add: py_index_def split: if_splits)

lemma update_port_error: "update_port serials shut entry = Inl e \<Longrightarrow> e = IndexError"
  by (auto simp: update_port_def Let_def bind_def split: prod.splits sum.splits dest: py_index_error)


lemma update_port_module:
  assumes "module c = Some m" "1 \<le> m" "m \<le> int (length serials)"
  shows "update_port serials shut (intf, c) =
           Inr (UpdateDeviceSwitchPort (serials ! nat (m - 1)) (port_payload shut (intf, c)))"
  using assms by (simp add: update_port_def port_payload_def Let_def py_index_in_range)

lemma update_port_module_above:
  assumes "module c = Some m" "int (length serials) < m"
  shows "update_port serials shut (intf, c) = Inl IndexError"
  using assms by (simp add: update_port_def Let_def py_index_above)

lemma update_ports_error:
  "update_ports serials shut cfgs = (evs, Raised e) \<Longrightarrow> e = IndexError"
proof (induction cfgs arbitrary: evs)
  case Nil
  then show ?case by simp
next
  case (Cons entry rest)
  then show ?case
    by (auto split: sum.splits prod.splits dest: update_port_error)
qed

lemma update_ports_outcome:
  "snd (update_ports serials shut cfgs) = Finished \<or> snd (update_ports serials shut cfgs) = Raised IndexError"
proof (induction cfgs)
  case Nil
  show ?case by simp
next
  case (Cons entry rest)
  then show ?case
    by (auto split: sum.splits prod.splits dest: update_port_error)
qed

lemma update_ports_all_ok:
  assumes "\<forall>entry \<in> set cfgs. \<exists>ev. update_port serials shut entry = Inr ev"
  shows "update_ports serials shut cfgs =
           (map (\<lambda>entry. case update_port serials shut entry of Inr ev \<Rightarrow> ev) cfgs, Finished)"
  using assms by (induction cfgs) (auto split: sum.splits prod.splits)

lemma update_ports_some_error:
  assumes "entry \<in> set cfgs" "update_port serials shut entry = Inl e"
  shows "snd (update_ports serials shut cfgs) = Raised IndexError"
  using assms
proof (induction cfgs)
  case Nil
  then show ?case by simp
next
  case (Cons x rest)
  then show ?case
    by (auto split: sum.splits prod.splits dest: update_port_error)
qed

lemma update_payloads_append:
  "update_payloads (xs @ ys) = update_payloads xs @ update_payloads ys"
  by (induction xs rule: update_payloads.induct) simp_all


subsection \<open>The gateway scan\<close>


lemma scan_svis_Cons:
  "scan_svis gw serial ((k, r) # rest) d =
     (case gateway_in gw r of
        Inl e \<Rightarrow> ((k, r) # rest, d, [], Raised e)
      | Inr b \<Rightarrow>
          if b then
            (case scan_svis gw serial rest (vlanId r) of
               (rest', d', evs', out) \<Rightarrow>
                 ((k, r\<lparr>defaultGateway := Some gw\<rparr>) # rest', d',
                  CreateDeviceSwitchRoutingInterface serial (r\<lparr>defaultGateway := Some gw\<rparr>) # evs',
                  out))
          else
            (case scan_svis gw serial rest d of
               (rest', d', evs', out) \<Rightarrow> ((k, r) # rest', d', evs', out)))"
  by (simp add: gateway_in_def create_default_svi_def Let_def split: sum.splits prod.splits)

declare scan_svis.simps(2) [simp del]

lemma gateway_in_flag [simp]:
  "gateway_in gw (r\<lparr>defaultGateway := x\<rparr>) = gateway_in gw r"
  by (simp add: gateway_in_def)

lemma bears_gateway_flag [simp]: "bears_gateway gw (flag_gateway gw entry) = bears_gateway gw entry"
  by (cases entry) (simp add: bears_gateway_def flag_gateway_def)

lemma flag_gateway_idem [simp]: "flag_gateway gw (flag_gateway gw entry) = flag_gateway gw entry"
  by (cases entry) (simp add: flag_gateway_def)

lemma fst_flag_gateway [simp]: "fst (flag_gateway gw entry) = fst entry"
  by (cases entry) (simp add: flag_gateway_def)

lemma vlanId_flag_gateway [simp]: "vlanId (snd (flag_gateway gw entry)) = vlanId (snd entry)"
  by (cases entry) (simp add: flag_gateway_def)

text \<open>The loop over the records never takes the early return, and leaves the keys alone.\<close>

lemma scan_svis_general:
  "scan_svis gw serial entries d = (entries', d', evs, out) \<Longrightarrow>
     out \<noteq> Returned_early \<and> map fst entries' = map fst entries \<and> update_payloads evs = []"
proof (induction entries arbitrary: d entries' d' evs out)
  case Nil
  then show ?case by auto
next
  case (Cons entry rest)
  obtain k r where e: "entry = (k, r)" by (cases entry)
  show ?case
  proof (cases "gateway_in gw r")
    case (Inl err)
    with Cons.prems e show ?thesis by (auto simp: scan_svis_Cons)
  next
    case (Inr b)
    obtain rest' d2 evs2 out2 where
      r: "scan_svis gw serial rest (if b then vlanId r else d) = (rest', d2, evs2, out2)"
      by (cases "scan_svis gw serial rest (if b then vlanId r else d)") auto
    from Cons.IH[OF r] Cons.prems e Inr r show ?thesis
      by (cases b) (auto simp: scan_svis_Cons)
  qed
qed

text \<open>What the loop does when it runs to its end.\<close>

lemma scan_svis_finished:
  "scan_svis gw serial entries d = (entries', d', evs, Finished) \<Longrightarrow>
     entries' = map (flag_gateway gw) entries
     \<and> d' = last (d # map (\<lambda>entry. vlanId (snd entry)) (filter (bears_gateway gw) entries))
     \<and> evs = map (\<lambda>entry. CreateDeviceSwitchRoutingInterface serial (snd entry))
               (filter (bears_gateway gw) (map (flag_gateway gw) entries))"
proof (induction entries arbitrary: d entries' d' evs)
  case Nil
  then show ?case by auto
next
  case (Cons entry rest)
  obtain k r where e: "entry = (k, r)" by (cases entry)
  show ?case
  proof (cases "gateway_in gw r")
    case (Inl err)
    with Cons.prems e show ?thesis by (auto simp: scan_svis_Cons)
  next
    case (Inr b)
    obtain rest' d2 evs2 out2 where
      r: "scan_svis gw serial rest (if b then vlanId r else d) = (rest', d2, evs2, out2)"
      by (cases "scan_svis gw serial rest (if b then vlanId r else d)") auto
    from Cons.prems e Inr r have "out2 = Finished"
      by (cases b) (auto simp: scan_svis_Cons)
    with r have r': "scan_svis gw serial rest (if b then vlanId r else d) = (rest', d2, evs2, Finished)"
      by simp
    from Cons.IH[OF r'] Cons.prems e Inr r' show ?thesis
      by (cases b) (auto simp: scan_svis_Cons flag_gateway_def bears_gateway_def)
  qed
qed

lemma scan_serials_general:
  "scan_serials dash gw serials svi_data d log = (svi_data1, d1, log1, out) \<Longrightarrow>
     out \<noteq> Returned_early \<and> map fst svi_data1 = map fst svi_data
     \<and> update_payloads log1 = update_payloads log \<and> (\<exists>evs. log1 = log @ evs)"
proof (induction serials arbitrary: svi_data d log)
  case Nil
  then show ?case by auto
next
  case (Cons serial serials)
  let ?log1 = "log @ [GetDeviceSwitchRoutingInterfaces serial]"
  show ?case
  proof (cases "check_default_gateway (map (\<lambda>s. py_str (ri_vlanId s)) (dash log serial))")
    case True
    with Cons.prems have "scan_serials dash gw serials svi_data d ?log1 = (svi_data1, d1, log1, out)"
      by (simp add: Let_def)
    from Cons.IH[OF this] show ?thesis by (auto simp: update_payloads_append)
  next
    case False
    obtain sd' d' evs out' where r: "scan_svis gw serial svi_data d = (sd', d', evs, out')"
      by (cases "scan_svis gw serial svi_data d") auto
    note g = scan_svis_general[OF r]
    show ?thesis
    proof (cases "out' = Finished")
      case True
      with Cons.prems False r
      have "scan_serials dash gw serials sd' d' (?log1 @ evs) = (svi_data1, d1, log1, out)"
        by (simp add: Let_def)
      from Cons.IH[OF this] g show ?thesis by (auto simp: update_payloads_append)
    next
      case nf: False
      with Cons.prems False r have "svi_data1 = sd'" "log1 = ?log1 @ evs" "out = out'"
        by (simp_all add: Let_def)
      with g show ?thesis by (simp add: update_payloads_append)
    qed
  qed
qed

lemma last_last_Cons: "last (last (d # xs) # xs) = last (d # xs)"
  by (cases xs) simp_all

lemma filter_bears_flag:
  "filter (bears_gateway gw) (map (flag_gateway gw) entries)
     = map (flag_gateway gw) (filter (bears_gateway gw) entries)"
  by (induction entries) simp_all

lemma scan_serials_finished:
  "scan_serials dash gw serials svi_data d log = (svi_data1, d1, log1, Finished) \<Longrightarrow>
     (svi_data1 = svi_data \<and> d1 = d)
     \<or> (svi_data1 = map (flag_gateway gw) svi_data
        \<and> d1 = last (d # map (\<lambda>entry. vlanId (snd entry)) (filter (bears_gateway gw) svi_data))
        \<and> (\<forall>entry \<in> set (filter (bears_gateway gw) svi_data1).
              \<exists>serial. CreateDeviceSwitchRoutingInterface serial (snd entry) \<in> set log1))"
proof (induction serials arbitrary: svi_data d log)
  case Nil
  then show ?case by auto
next
  case (Cons serial serials)
  let ?log1 = "log @ [GetDeviceSwitchRoutingInterfaces serial]"
  let ?ids = "\<lambda>l. map (\<lambda>entry. vlanId (snd entry)) (filter (bears_gateway gw) l)"
  show ?case
  proof (cases "check_default_gateway (map (\<lambda>s. py_str (ri_vlanId s)) (dash log serial))")
    case True
    with Cons.prems have "scan_serials dash gw serials svi_data d ?log1 = (svi_data1, d1, log1, Finished)"
      by (simp add: Let_def)
    from Cons.IH[OF this] show ?thesis .
  next
    case False
    obtain sd' d' evs out' where r: "scan_svis gw serial svi_data d = (sd', d', evs, out')"
      by (cases "scan_svis gw serial svi_data d") auto
    have fin: "out' = Finished"
    proof (rule ccontr)
      assume "out' \<noteq> Finished"
      with Cons.prems False r show False by (simp add: Let_def)
    qed
    from scan_svis_finished[OF r[unfolded fin]]
    have sd': "sd' = map (flag_gateway gw) svi_data"
      and d': "d' = last (d # ?ids svi_data)"
      and evs: "evs = map (\<lambda>entry. CreateDeviceSwitchRoutingInterface serial (snd entry))
                        (filter (bears_gateway gw) sd')"
      by simp_all
    from Cons.prems False r fin
    have rec: "scan_serials dash gw serials sd' d' (?log1 @ evs) = (svi_data1, d1, log1, Finished)"
      by (simp add: Let_def)
    from scan_serials_general[OF rec] obtain tl where tl: "log1 = (?log1 @ evs) @ tl"
      by blast
    have ids: "?ids sd' = ?ids svi_data"
      by (simp add: sd' filter_bears_flag comp_def)
    have created: "\<forall>entry \<in> set (filter (bears_gateway gw) sd').
            \<exists>serial. CreateDeviceSwitchRoutingInterface serial (snd entry) \<in> set log1"
    proof
      fix entry
      assume a: "entry \<in> set (filter (bears_gateway gw) sd')"
      then have "CreateDeviceSwitchRoutingInterface serial (snd entry) \<in> set evs"
        unfolding evs set_map by (rule imageI)
      then have "CreateDeviceSwitchRoutingInterface serial (snd entry) \<in> set log1"
        unfolding tl by simp
      then show "\<exists>serial. CreateDeviceSwitchRoutingInterface serial (snd entry) \<in> set log1" ..
    qed
    from Cons.IH[OF rec] show ?thesis
    proof
      assume "svi_data1 = sd' \<and> d1 = d'"
      with sd' d' created show ?thesis by simp
    next
      assume b: "svi_data1 = map (flag_gateway gw) sd' \<and> d1 = last (d' # ?ids sd')
        \<and> (\<forall>entry \<in> set (filter (bears_gateway gw) svi_data1).
              \<exists>serial. CreateDeviceSwitchRoutingInterface serial (snd entry) \<in> set log1)"
      then have "svi_data1 = map (flag_gateway gw) svi_data" by (simp add: sd' comp_def)
      moreover from b have "d1 = last (d # ?ids svi_data)"
        by (simp only: ids d' last_last_Cons)
      ultimately show ?thesis using b by blast
    qed
  qed
qed

lemma flag_gateway_other: "\<not> bears_gateway gw entry \<Longrightarrow> flag_gateway gw entry = entry"
  by (cases entry) (simp add: flag_gateway_def bears_gateway_def)

lemma delete_filter: "AList.delete k al = filter (\<lambda>entry. fst entry \<noteq> k) al"
  by (induction al) (auto simp: AList.delete_eq)

subsection \<open>Splitting strings\<close>






subsection \<open>Networks\<close>







subsection \<open>The VLAN loop\<close>

lemma find_objects_append:
  "find_objects r (xs @ ys) = find_objects r xs @ find_objects r ys"
  by (simp add: find_objects_def)

lemma update_fresh: "k \<notin> set (map fst al) \<Longrightarrow> AList.update k v al = al @ [(k, v)]"
  by (induction al) auto


lemma svi_step_cases:
  assumes "svi_step acc b = Inr acc'"
  shows "\<exists>k. vlan_id_of b = Inr k
           \<and> (acc' = acc
              \<or> (k \<notin> set (map fst acc) \<and> has_ip_and_mask b
                 \<and> (\<exists>r. acc' = acc @ [(k, r)] \<and> svi_step [] b = Inr [(k, r)])))"
proof -
  from assms obtain k where k: "vlan_id_of b = Inr k"
    by (cases "vlan_id_of b") (auto simp: svi_step_def)
  obtain d ip nm where f: "svi_fields b = (d, ip, nm)" by (cases "svi_fields b")
  show ?thesis
  proof (cases "k \<notin> set (map fst acc) \<and> ip \<noteq> [] \<and> nm \<noteq> []")
    case False
    with assms k f have "acc' = acc" by (auto simp: svi_step_def split: if_splits)
    with k show ?thesis by blast
  next
    case True
    with assms k f obtain net where
      n: "ipaddress_ip_network (ip @ ''/'' @ nm) False = Inr net"
      by (cases "ipaddress_ip_network (ip @ ''/'' @ nm) False") (auto simp: svi_step_def)
    let ?r = "\<lparr>name = (if d \<noteq> [] then d else ''Vlan'' @ k), vlanId = k, interfaceIp = ip,
               subnet = str_network net, defaultGateway = None\<rparr>"
    from assms k f True n have "acc' = acc @ [(k, ?r)]"
      by (auto simp: svi_step_def update_fresh)
    moreover from k f True n have "svi_step [] b = Inr [(k, ?r)]"
      by (auto simp: svi_step_def)
    moreover from f True have "has_ip_and_mask b" by (simp add: has_ip_and_mask_def)
    ultimately show ?thesis using k True by blast
  qed
qed

lemma svi_loop_grows:
  "for_each svi_step acc vs = Inr res \<Longrightarrow>
     (\<exists>tl. res = acc @ tl)
     \<and> (distinct (map fst acc) \<longrightarrow> distinct (map fst res))
     \<and> (\<forall>k \<in> set (map fst res). k \<in> set (map fst acc)
           \<or> (\<exists>v \<in> set vs. vlan_id_of v = Inr k \<and> has_ip_and_mask v))"
proof (induction vs arbitrary: acc)
  case Nil
  then show ?case by simp
next
  case (Cons v vs)
  from Cons.prems obtain acc' where s: "svi_step acc v = Inr acc'"
    and r: "for_each svi_step acc' vs = Inr res"
    by (auto simp: bind_eq_Inr)
  note ih = Cons.IH[OF r]
  from svi_step_cases[OF s] obtain k where k: "vlan_id_of v = Inr k"
    and c: "acc' = acc \<or> (k \<notin> set (map fst acc) \<and> has_ip_and_mask v
                 \<and> (\<exists>r. acc' = acc @ [(k, r)] \<and> svi_step [] v = Inr [(k, r)]))"
    by blast
  from c show ?case
  proof
    assume "acc' = acc"
    with ih show ?thesis by auto
  next
    assume a: "k \<notin> set (map fst acc) \<and> has_ip_and_mask v
                 \<and> (\<exists>r. acc' = acc @ [(k, r)] \<and> svi_step [] v = Inr [(k, r)])"
    then obtain r where acc': "acc' = acc @ [(k, r)]" by blast
    from ih acc' have 1: "\<exists>tl. res = acc @ tl" by auto
    from ih acc' a have 2: "distinct (map fst acc) \<longrightarrow> distinct (map fst res)" by auto
    have 3: "\<forall>k' \<in> set (map fst res). k' \<in> set (map fst acc)
           \<or> (\<exists>v' \<in> set (v # vs). vlan_id_of v' = Inr k' \<and> has_ip_and_mask v')"
    proof
      fix k' assume "k' \<in> set (map fst res)"
      with ih have "k' \<in> set (map fst acc') \<or> (\<exists>v' \<in> set vs. vlan_id_of v' = Inr k' \<and> has_ip_and_mask v')"
        by blast
      then show "k' \<in> set (map fst acc)
           \<or> (\<exists>v' \<in> set (v # vs). vlan_id_of v' = Inr k' \<and> has_ip_and_mask v')"
        using acc' a k by auto
    qed
    from 1 2 3 show ?thesis by blast
  qed
qed

lemma map_of_prefix: "map_of acc k = Some r \<Longrightarrow> map_of (acc @ rest) k = Some r"
  by (simp add: map_add_Some_iff)

lemma distinct_key_filter:
  "distinct (map fst al) \<Longrightarrow> map_of al k = Some r \<Longrightarrow> filter (\<lambda>entry. fst entry = k) al = [(k, r)]"
proof (induction al)
  case Nil
  then show ?case by simp
next
  case (Cons e al)
  obtain k' r' where e: "e = (k', r')" by (cases e)
  show ?case
  proof (cases "k' = k")
    case True
    with Cons.prems e have "r' = r" "k \<notin> fst ` set al" by auto
    then have "filter (\<lambda>entry. fst entry = k) al = []"
      by (auto simp: filter_empty_conv)
    with True e \<open>r' = r\<close> show ?thesis by simp
  next
    case False
    with Cons e show ?thesis by auto
  qed
qed

text \<open>The first block of a VLAN id that has an address and a mask decides the record.\<close>

lemma first_valid_block:
  assumes p: "parse_svi_data cfg = Inr svi_data"
    and f: "find_objects interface_vlan_re cfg = pre @ b # post"
    and k: "vlan_id_of b = Inr k"
    and v: "has_ip_and_mask b"
    and first: "\<forall>v \<in> set pre. vlan_id_of v = Inr k \<longrightarrow> \<not> has_ip_and_mask v"
  shows "\<exists>r. svi_step [] b = Inr [(k, r)] \<and> map_of svi_data k = Some r
           \<and> distinct (map fst svi_data)"
proof -
  from p f have "for_each svi_step [] (pre @ b # post) = Inr svi_data"
    by (simp add: parse_svi_data_def)
  then obtain acc1 acc2 where a1: "for_each svi_step [] pre = Inr acc1"
    and a2: "svi_step acc1 b = Inr acc2"
    and a3: "for_each svi_step acc2 post = Inr svi_data"
    by (auto simp: for_each_append bind_eq_Inr)
  from svi_loop_grows[OF a1] first have fresh: "k \<notin> set (map fst acc1)" and d1: "distinct (map fst acc1)"
    by auto
  obtain d ip nm where fl: "svi_fields b = (d, ip, nm)" by (cases "svi_fields b")
  with v have nz: "ip \<noteq> []" "nm \<noteq> []" by (simp_all add: has_ip_and_mask_def)
  from a2 k fl fresh nz obtain net where
    n: "ipaddress_ip_network (ip @ ''/'' @ nm) False = Inr net"
    by (cases "ipaddress_ip_network (ip @ ''/'' @ nm) False") (auto simp: svi_step_def)
  let ?r = "\<lparr>name = (if d \<noteq> [] then d else ''Vlan'' @ k), vlanId = k, interfaceIp = ip,
             subnet = str_network net, defaultGateway = None\<rparr>"
  from a2 k fl fresh nz n have acc2: "acc2 = acc1 @ [(k, ?r)]"
    by (auto simp: svi_step_def update_fresh)
  from k fl nz n have s0: "svi_step [] b = Inr [(k, ?r)]"
    by (auto simp: svi_step_def)
  from acc2 fresh have m2: "map_of acc2 k = Some ?r"
    by (simp add: map_add_Some_iff map_of_eq_None_iff)
  from svi_loop_grows[OF a3] obtain tl where tl: "svi_data = acc2 @ tl" by blast
  from m2 have m: "map_of svi_data k = Some ?r" unfolding tl by (rule map_of_prefix)
  from acc2 fresh d1 have "distinct (map fst acc2)" by simp
  with svi_loop_grows[OF a3] have "distinct (map fst svi_data)" by blast
  with s0 m show ?thesis by blast
qed

subsection \<open>The interface loop\<close>



lemma py_str_int_nat [simp]: "py_str_int (int p) = str_of_nat p"
  by (simp add: py_str_int_def)


lemma remap_single_stack_unit:
  "py_int switch_module = Inr m \<Longrightarrow> 1 < m \<Longrightarrow>
     remap 1 module_counter switch_module port_number = Inl TypeError"
  by (simp add: remap_def)





subsection \<open>Products of lists, and the keys of the SVI dictionary\<close>

lemma length_concat_product:
  "length (concat (map (\<lambda>x. map (f x) ys) xs)) = length xs * length ys"
  by (induction xs) simp_all

lemma nth_concat_product:
  "i < length xs \<Longrightarrow> j < length ys \<Longrightarrow>
     concat (map (\<lambda>x. map (f x) ys) xs) ! (i * length ys + j) = f (xs ! i) (ys ! j)"
proof (induction xs arbitrary: i)
  case Nil
  then show ?case by simp
next
  case (Cons x xs)
  show ?case
  proof (cases i)
    case 0
    with Cons.prems show ?thesis by (simp add: nth_append)
  next
    case (Suc i')
    with Cons.prems have "i' < length xs" by simp
    from Cons.IH[OF this Cons.prems(2)] Suc show ?thesis
      by (simp add: nth_append)
  qed
qed

lemma length_filter_other_keys:
  "distinct (map fst al) \<Longrightarrow> k \<in> set (map fst al) \<Longrightarrow>
     length (filter (\<lambda>entry. fst entry \<noteq> k) al) = length al - 1"
proof (induction al)
  case Nil
  then show ?case by simp
next
  case (Cons e al)
  show ?case
  proof (cases "fst e = k")
    case True
    with Cons.prems have "k \<notin> set (map fst al)" by auto
    then have "filter (\<lambda>entry. fst entry \<noteq> k) al = al"
      by (auto simp: filter_id_conv)
    with True show ?thesis by simp
  next
    case False
    with Cons.prems have d: "distinct (map fst al)" and k: "k \<in> set (map fst al)" by auto
    from k have "al \<noteq> []" by auto
    with Cons.IH[OF d k] False show ?thesis by (cases al) simp_all
  qed
qed

lemma svi_step_keys:
  assumes "svi_step acc b = Inr acc'"
    and "\<forall>entry \<in> set acc. vlanId (snd entry) = fst entry"
  shows "\<forall>entry \<in> set acc'. vlanId (snd entry) = fst entry"
proof -
  from assms(1) obtain k where k: "vlan_id_of b = Inr k"
    by (cases "vlan_id_of b") (auto simp: svi_step_def)
  obtain d ip nm where f: "svi_fields b = (d, ip, nm)" by (cases "svi_fields b")
  show ?thesis
  proof (cases "k \<notin> set (map fst acc) \<and> ip \<noteq> [] \<and> nm \<noteq> []")
    case False
    with assms k f have "acc' = acc" by (auto simp: svi_step_def split: if_splits)
    with assms(2) show ?thesis by simp
  next
    case True
    with assms(1) k f obtain net where
      n: "ipaddress_ip_network (ip @ ''/'' @ nm) False = Inr net"
      by (cases "ipaddress_ip_network (ip @ ''/'' @ nm) False") (auto simp: svi_step_def)
    let ?r = "\<lparr>name = (if d \<noteq> [] then d else ''Vlan'' @ k), vlanId = k, interfaceIp = ip,
               subnet = str_network net, defaultGateway = None\<rparr>"
    from assms(1) k f True n have "acc' = acc @ [(k, ?r)]"
      by (auto simp: svi_step_def update_fresh)
    with assms(2) show ?thesis by auto
  qed
qed

lemma svi_loop_keys:
  "for_each svi_step acc vs = Inr res \<Longrightarrow>
     \<forall>entry \<in> set acc. vlanId (snd entry) = fst entry \<Longrightarrow>
     \<forall>entry \<in> set res. vlanId (snd entry) = fst entry"
proof (induction vs arbitrary: acc)
  case Nil
  then show ?case by simp
next
  case (Cons v vs)
  from Cons.prems(1) obtain acc' where s: "svi_step acc v = Inr acc'"
    and r: "for_each svi_step acc' vs = Inr res"
    by (auto simp: bind_eq_Inr)
  from Cons.IH[OF r svi_step_keys[OF s Cons.prems(2)]] show ?case .
qed

text \<open>The dictionary that \<^verbatim>\<open>parse_svi_data\<close> returns is keyed by the VLAN id of its
  records, and its keys are distinct.\<close>

lemma parse_svi_data_keys:
  assumes "parse_svi_data cfg = Inr svi_data"
  shows "(\<forall>entry \<in> set svi_data. vlanId (snd entry) = fst entry) \<and> distinct (map fst svi_data)"
proof -
  from assms have l: "for_each svi_step [] (find_objects interface_vlan_re cfg) = Inr svi_data"
    by (simp add: parse_svi_data_def)
  from svi_loop_keys[OF l] have "\<forall>entry \<in> set svi_data. vlanId (snd entry) = fst entry" by simp
  moreover from svi_loop_grows[OF l] have "distinct (map fst svi_data)" by simp
  ultimately show ?thesis ..
qed

section \<open>A default gateway in no subnet\<close>

text \<open>
  C1. The specification says that a run whose default gateway lies in none of the
  extracted subnets reports the error and returns without any bulk call. The script prints
  the error ("Cannot proceed without Default Gateway. Exiting program...") and goes on:
  the \<^verbatim>\<open>else\<close> branch of line 306 has no \<^verbatim>\<open>return\<close>. With one device, one SVI
  \<^verbatim>\<open>10.0.1.0/24\<close>, the gateway \<^verbatim>\<open>10.0.9.1\<close> and one interface record, the run issues the
  create call for the SVI and the update call for the port after the error.
\<close>

theorem no_gateway_run_still_applies:
  "configure_meraki (\<lambda>log serial. []) ''10.0.9.1'' [''Q2XX-AAAA-0001'']
     [(''10'', \<lparr>name = ''Vlan10'', vlanId = ''10'', interfaceIp = ''10.0.1.1'',
                subnet = ''10.0.1.0/24'', defaultGateway = None\<rparr>)]
     [] [(''GigabitEthernet1/0/1'', plain_port ''1'' None)]
   = ([GetDeviceSwitchRoutingInterfaces ''Q2XX-AAAA-0001'',
       PrintNoGatewayError,
       CreateDeviceSwitchRoutingInterface ''Q2XX-AAAA-0001''
         \<lparr>name = ''Vlan10'', vlanId = ''10'', interfaceIp = ''10.0.1.1'',
          subnet = ''10.0.1.0/24'', defaultGateway = None\<rparr>,
       UpdateDeviceSwitchPort ''Q2XX-AAAA-0001'' ((plain_port ''1'' None)\<lparr>enabled := Some True\<rparr>)],
      Finished)"
  by code_simp

text \<open>In general: whenever the scan ends and no record bears the gateway, the run prints the
  error and then issues the create calls for every record on every device, and runs the
  port loop.\<close>

lemma no_gateway_bulk_still_runs:
  assumes "scan_serials dash default_gateway serials svi_data [] []
             = (svi_data1, default_svi, log1, Finished)"
    and "filter (bears_gateway default_gateway) svi_data = []"
  shows "configure_meraki dash default_gateway serials svi_data shut_interfaces intf_configs
           = (log1 @ PrintNoGatewayError # create_svis serials svi_data
                @ fst (update_ports serials shut_interfaces intf_configs),
              snd (update_ports serials shut_interfaces intf_configs))"
proof -
  from assms(2) have none: "\<forall>entry \<in> set svi_data. \<not> bears_gateway default_gateway entry"
    by (simp add: filter_empty_conv)
  then have "map (flag_gateway default_gateway) svi_data = svi_data"
    by (simp add: flag_gateway_other map_idI)
  with scan_serials_finished[OF assms(1)] assms(2)
  have "svi_data1 = svi_data" "default_svi = []" by auto
  then show ?thesis
    by (simp add: configure_meraki_def assms(1) remove_default_def split: prod.splits)
qed

section \<open>Port numbers for one target device\<close>

text \<open>
  C2. The specification says that with one target device an interface on stacking unit
  \<open>N > 1\<close> gets the port number \<^verbatim>\<open>raw_port + module_counter * (N - 1)\<close>. The script
  computes \<^verbatim>\<open>switch_module - 1\<close> on the string that \<^verbatim>\<open>re_match_typed\<close> returned, so the
  first such interface raises a TypeError and no port number is assigned at all. With
  unit 1 port 1 and unit 2 port 5 the specification's formula gives port 6.
\<close>

theorem single_switch_stack_unit_raises:
  "parse_intf_config
     [header ''interface GigabitEthernet1/0/1'', header ''interface GigabitEthernet2/0/5''] 1
   = Inl TypeError"
  by code_simp

text \<open>In general: with one target device, a configuration with a retained interface on a
  stacking unit above 1 makes \<^verbatim>\<open>parse_intf_config\<close> raise.\<close>

lemma single_switch_stack_unit_always_raises:
  assumes "find_objects interface_re cfg = pre @ b # post"
    and "retained b"
    and "py_int (switch_module_of b) = Inr m"
    and "1 < m"
  shows "\<exists>e. parse_intf_config cfg 1 = Inl e"
proof -
  have step: "\<exists>e. intf_step 1 st b = Inl e" for st
  proof (cases "py_int (port_number_of b)")
    case (Inl e)
    with assms(2) show ?thesis by (cases st) (simp add: intf_step_def)
  next
    case (Inr p)
    with assms(2) remap_single_stack_unit[OF assms(3,4)] show ?thesis
      by (cases st) (simp add: intf_step_def)
  qed
  have "\<exists>e. for_each (intf_step 1) (0, []) (pre @ b # post) = Inl e"
  proof (cases "for_each (intf_step 1) (0, []) pre")
    case (Inl e)
    then show ?thesis by (simp add: for_each_append)
  next
    case (Inr st)
    from step[of st] obtain e where "intf_step 1 st b = Inl e" by blast
    with Inr show ?thesis by (simp add: for_each_append)
  qed
  with assms(1) show ?thesis by (auto simp: parse_intf_config_def)
qed

text \<open>So it is for the stack of the specification's example, unit 1 and unit 2 with the
  ports 1 to 24 each: no port number 29 is assigned, the function raises.\<close>

lemma two_units_of_24_ports_raise:
  "\<exists>e. parse_intf_config (map (gig 1) [1 ..< 25] @ map (gig 2) [1 ..< 25]) 1 = Inl e"
proof -
  let ?cfg = "map (gig 1) [1 ..< 25] @ map (gig 2) [1 ..< 25]"
  have f: "find_objects interface_re ?cfg
             = (map (gig 1) [1 ..< 25] @ map (gig 2) [1 ..< 5]) @ gig 2 5 # map (gig 2) [6 ..< 25]"
    by code_simp
  have r: "retained (gig 2 5)"
    by code_simp
  have m: "py_int (switch_module_of (gig 2 5)) = Inr 2"
    by code_simp
  show ?thesis
    by (rule single_switch_stack_unit_always_raises[OF f r m]) simp
qed

section \<open>A device that already has a default gateway\<close>

text \<open>
  C3. The specification says that no gateway-creating call is issued for a device one of
  whose routed interfaces already has a default gateway. The script hands
  \<^verbatim>\<open>check_default_gateway\<close> the list of the interfaces' VLAN ids as strings, so the test
  \<^verbatim>\<open>"defaultGateway" in svi\<close> looks for a substring of \<^verbatim>\<open>"20"\<close> and is false: the device
  below already has a default gateway on VLAN 20 and receives the create call all the same.
\<close>

theorem existing_gateway_not_detected:
  "configure_meraki
     (\<lambda>log serial. [\<lparr>ri_vlanId = PInt 20, ri_defaultGateway = Some ''10.0.2.254''\<rparr>])
     ''10.0.2.1'' [''Q2XX-AAAA-0001'']
     [(''20'', \<lparr>name = ''Vlan20'', vlanId = ''20'', interfaceIp = ''10.0.2.2'',
                subnet = ''10.0.2.0/24'', defaultGateway = None\<rparr>)]
     [] []
   = ([GetDeviceSwitchRoutingInterfaces ''Q2XX-AAAA-0001'',
       CreateDeviceSwitchRoutingInterface ''Q2XX-AAAA-0001''
         \<lparr>name = ''Vlan20'', vlanId = ''20'', interfaceIp = ''10.0.2.2'',
          subnet = ''10.0.2.0/24'', defaultGateway = Some ''10.0.2.1''\<rparr>],
      Finished)"
  by code_simp

text \<open>In general: the test is false for every device whose interfaces have integer VLAN
  ids, whatever else the dashboard lists for them, since the decimal text of an integer
  does not contain \<^verbatim>\<open>defaultGateway\<close>.\<close>

lemma startswith_set: "startswith s p \<Longrightarrow> set p \<subseteq> set s"
  by (induction s p rule: startswith.induct) auto

lemma py_in_str_set: "py_in_str sub s \<Longrightarrow> set sub \<subseteq> set s"
proof (induction s)
  case Nil
  then show ?case by simp
next
  case (Cons c cs)
  then show ?case using startswith_set[of "c # cs" sub] by auto
qed

lemma is_digit_digit_chr: "d < 10 \<Longrightarrow> is_digit (digit_chr d)"
  by (simp add: is_digit_def digit_chr_def)

lemma str_of_nat_digits: "c \<in> set (str_of_nat n) \<Longrightarrow> is_digit c"
proof (induction n rule: str_of_nat.induct)
  case (1 n)
  show ?case
  proof (cases "n < 10")
    case True
    with "1.prems" show ?thesis by (simp add: str_of_nat.simps[of n] is_digit_digit_chr)
  next
    case False
    with "1.prems" have "c \<in> set (str_of_nat (n div 10)) \<or> c = digit_chr (n mod 10)"
      by (auto simp: str_of_nat.simps[of n])
    with "1.IH"[OF False] show ?thesis by (auto simp: is_digit_digit_chr)
  qed
qed

lemma no_key_in_vlan_id: "\<not> py_in_str ''defaultGateway'' (py_str_int i)"
proof
  assume "py_in_str ''defaultGateway'' (py_str_int i)"
  from py_in_str_set[OF this] have "CHR ''d'' \<in> set (py_str_int i)" by auto
  then have "is_digit CHR ''d'' \<or> CHR ''d'' = CHR ''-''"
    by (auto simp: py_str_int_def dest: str_of_nat_digits split: if_splits)
  then show False by (simp add: is_digit_def)
qed

lemma check_default_gateway_int_ids:
  assumes "list_all (\<lambda>s. case ri_vlanId s of PInt i \<Rightarrow> True | PStr x \<Rightarrow> False) meraki_svi_response"
  shows "\<not> check_default_gateway (map (\<lambda>s. py_str (ri_vlanId s)) meraki_svi_response)"
proof -
  have "\<not> py_in_str ''defaultGateway'' (py_str (ri_vlanId s))"
    if "s \<in> set meraki_svi_response" for s
  proof (cases "ri_vlanId s")
    case (PStr x)
    with assms that show ?thesis by (auto simp: list_all_iff)
  next
    case (PInt i)
    then show ?thesis by (simp add: no_key_in_vlan_id)
  qed
  then show ?thesis by (auto simp: check_default_gateway_def list_ex_iff)
qed

section \<open>Several target devices\<close>



section \<open>The subnet of an SVI record\<close>



section \<open>Blocks without address or mask\<close>



section \<open>Duplicate VLAN ids\<close>

text \<open>
  C7. The VLAN id of a block is the digit string of its header, and lines 89 and 104 use
  that string, never converted to a number, as the dictionary key. Of several
  VLAN-interface blocks with the same VLAN id as written, the first one in which an IP
  address and a mask were found decides: the dictionary that \<^verbatim>\<open>parse_svi_data\<close> returns
  holds for the id the record built from that block alone, once; no later block
  overwrites it or is merged into it.
\<close>

theorem first_vlan_block_is_retained:
  assumes "parse_svi_data cfg = Inr svi_data"
    and "find_objects interface_vlan_re cfg = pre @ b # post"
    and "vlan_id_of b = Inr k"
    and "has_ip_and_mask b"
    and "\<forall>v \<in> set pre. vlan_id_of v = Inr k \<longrightarrow> \<not> has_ip_and_mask v"
  shows "\<exists>r. svi_step [] b = Inr [(k, r)]
           \<and> map_of svi_data k = Some r
           \<and> filter (\<lambda>entry. fst entry = k) svi_data = [(k, r)]"
proof -
  from first_valid_block[OF assms] obtain r where
    s: "svi_step [] b = Inr [(k, r)]" and m: "map_of svi_data k = Some r"
    and d: "distinct (map fst svi_data)"
    by blast
  from distinct_key_filter[OF d m] s m show ?thesis by blast
qed

text \<open>Two blocks for VLAN 10: the record has the address of the first.\<close>

theorem first_vlan_block_is_retained_witness:
  "parse_svi_data [block ''interface Vlan10'' ['' ip address 10.0.1.1 255.255.255.0''],
                   block ''interface Vlan10'' ['' ip address 10.0.3.1 255.255.255.0'']]
     = Inr [(''10'', \<lparr>name = ''Vlan10'', vlanId = ''10'', interfaceIp = ''10.0.1.1'',
                      subnet = ''10.0.1.0/24'', defaultGateway = None\<rparr>)]
   \<and> (\<exists>r. svi_step [] (block ''interface Vlan10'' ['' ip address 10.0.1.1 255.255.255.0''])
             = Inr [(''10'', r)]
           \<and> map_of [(''10'', \<lparr>name = ''Vlan10'', vlanId = ''10'', interfaceIp = ''10.0.1.1'',
                      subnet = ''10.0.1.0/24'', defaultGateway = None\<rparr>)] ''10'' = Some r
           \<and> filter (\<lambda>entry. fst entry = ''10'')
                [(''10'', \<lparr>name = ''Vlan10'', vlanId = ''10'', interfaceIp = ''10.0.1.1'',
                      subnet = ''10.0.1.0/24'', defaultGateway = None\<rparr>)] = [(''10'', r)])"
proof -
  let ?b = "block ''interface Vlan10'' ['' ip address 10.0.1.1 255.255.255.0'']"
  let ?b2 = "block ''interface Vlan10'' ['' ip address 10.0.3.1 255.255.255.0'']"
  have h1: "parse_svi_data [?b, ?b2]
     = Inr [(''10'', \<lparr>name = ''Vlan10'', vlanId = ''10'', interfaceIp = ''10.0.1.1'',
                      subnet = ''10.0.1.0/24'', defaultGateway = None\<rparr>)]"
    by code_simp
  have h2: "find_objects interface_vlan_re [?b, ?b2] = [] @ ?b # [?b2]"
    by code_simp
  have h3: "vlan_id_of ?b = Inr ''10''"
    by code_simp
  have f: "svi_fields ?b = ([], ''10.0.1.1'', ''255.255.255.0'')"
    by code_simp
  have h4: "has_ip_and_mask ?b"
    by (simp add: has_ip_and_mask_def f)
  have h5: "\<forall>v \<in> set []. vlan_id_of v = Inr ''10'' \<longrightarrow> \<not> has_ip_and_mask v"
    by simp
  from first_vlan_block_is_retained[OF h1 h2 h3 h4 h5] h1 show ?thesis
    by blast
qed

text \<open>For the same number written differently this does not hold: \<^verbatim>\<open>Vlan10\<close> and
  \<^verbatim>\<open>Vlan010\<close> both denote VLAN 10, and the dictionary keeps a record for each of them,
  the second built from the later block.\<close>

theorem same_number_other_text_counterexample:
  "parse_svi_data [block ''interface Vlan10'' ['' ip address 10.0.1.1 255.255.255.0''],
                   block ''interface Vlan010'' ['' ip address 10.0.3.1 255.255.255.0'']]
     = Inr [(''10'', vlan_record ''10'' ''10.0.1.1'' ''10.0.1.0/24'' None),
            (''010'', vlan_record ''010'' ''10.0.3.1'' ''10.0.3.0/24'' None)]
   \<and> py_int ''10'' = Inr 10 \<and> py_int ''010'' = Inr 10"
  by code_simp

section \<open>Shutdown interfaces\<close>



section \<open>The default SVI and the bulk step\<close>

text \<open>
  C9. When the scan of lines 283 to 301 has recorded a default SVI (\<^verbatim>\<open>default_svi\<close> is
  not empty), its record, flagged with the gateway, is in the working dictionary and was
  sent by a create call of the scan; line 305 deletes it, and the run continues with the
  bulk step and then with the port loop. The calls of the bulk step are written out: for
  the records that remain after the deletion, in the order of the dictionary, and for
  each of them on the devices in the order of the serial list, one create call with that
  record; so there are as many calls as remaining records times devices, the call at
  position \<open>i * length serials + j\<close> applies the \<open>i\<close>-th remaining record to the \<open>j\<close>-th
  device, and none of them applies the default SVI. When the keys of the dictionary are
  distinct the deletion removes exactly one record. The dictionary is keyed by the VLAN
  id of its records and has distinct keys when \<^verbatim>\<open>parse_svi_data\<close> has built it (lemma
  \<open>parse_svi_data_keys\<close>). With overlapping subnets the default SVI is the last
  gateway-bearing record.
\<close>

theorem default_svi_removed_before_bulk:
  assumes scan: "scan_serials dash default_gateway serials svi_data [] []
                   = (svi_data1, default_svi, log1, Finished)"
    and sel: "default_svi \<noteq> []"
    and keys: "\<forall>entry \<in> set svi_data. vlanId (snd entry) = fst entry"
  shows "\<exists>remaining bulk.
           remaining = filter (\<lambda>entry. fst entry \<noteq> default_svi) svi_data1
         \<and> bulk = concat (map (\<lambda>entry.
                      map (\<lambda>serial. CreateDeviceSwitchRoutingInterface serial (snd entry)) serials)
                    remaining)
         \<and> configure_meraki dash default_gateway serials svi_data shut_interfaces intf_configs
             = (log1 @ bulk @ fst (update_ports serials shut_interfaces intf_configs),
                snd (update_ports serials shut_interfaces intf_configs))
         \<and> length bulk = length remaining * length serials
         \<and> (\<forall>i < length remaining. \<forall>j < length serials.
               bulk ! (i * length serials + j)
                 = CreateDeviceSwitchRoutingInterface (serials ! j) (snd (remaining ! i)))
         \<and> (\<forall>serial r. CreateDeviceSwitchRoutingInterface serial r \<in> set bulk
               \<longrightarrow> vlanId r \<noteq> default_svi)
         \<and> (distinct (map fst svi_data) \<longrightarrow> length remaining = length svi_data - 1)
         \<and> svi_data1 = map (flag_gateway default_gateway) svi_data
         \<and> (\<exists>r serial. (default_svi, r) \<in> set svi_data1
               \<and> defaultGateway r = Some default_gateway
               \<and> CreateDeviceSwitchRoutingInterface serial r \<in> set log1)"
proof -
  let ?gw = default_gateway
  let ?xs = "filter (bears_gateway ?gw) svi_data"
  define remaining where "remaining = filter (\<lambda>entry. fst entry \<noteq> default_svi) svi_data1"
  define bulk where "bulk = concat (map (\<lambda>entry.
                      map (\<lambda>serial. CreateDeviceSwitchRoutingInterface serial (snd entry)) serials)
                    remaining)"
  from scan_serials_finished[OF scan] sel
  have sd1: "svi_data1 = map (flag_gateway ?gw) svi_data"
    and d: "default_svi = last ([] # map (\<lambda>entry. vlanId (snd entry)) ?xs)"
    and created: "\<forall>entry \<in> set (filter (bears_gateway ?gw) svi_data1).
              \<exists>serial. CreateDeviceSwitchRoutingInterface serial (snd entry) \<in> set log1"
    by auto
  from d sel have ne: "?xs \<noteq> []" by auto
  define e where "e = last ?xs"
  from ne have e_in: "e \<in> set ?xs" unfolding e_def by (rule last_in_set)
  then have e_sd: "e \<in> set svi_data" and e_b: "bears_gateway ?gw e" by simp_all
  from d ne have d_e: "default_svi = vlanId (snd e)"
    by (simp add: e_def last_map)
  with keys e_sd have key_e: "fst e = default_svi" by simp
  let ?e' = "flag_gateway ?gw e"
  have e'_in: "?e' \<in> set svi_data1" using e_sd sd1 by simp
  have e'_b: "bears_gateway ?gw ?e'" using e_b by simp
  have e'_eq: "?e' = (default_svi, snd ?e')"
    using key_e by (metis fst_flag_gateway prod.collapse)
  have gwset: "defaultGateway (snd ?e') = Some ?gw"
    using e_b by (cases e) (simp add: flag_gateway_def bears_gateway_def)
  have "?e' \<in> set (filter (bears_gateway ?gw) svi_data1)"
    using e'_in e'_b by simp
  with created obtain serial where
    cr: "CreateDeviceSwitchRoutingInterface serial (snd ?e') \<in> set log1"
    by blast
  have applied: "\<exists>r serial. (default_svi, r) \<in> set svi_data1
              \<and> defaultGateway r = Some ?gw
              \<and> CreateDeviceSwitchRoutingInterface serial r \<in> set log1"
    using e'_in e'_eq gwset cr by metis
  have inkeys: "default_svi \<in> set (map fst svi_data1)"
    using e'_in e'_eq by (metis fst_conv image_eqI set_map)
  have rd: "remove_default svi_data1 default_svi = Inr (remaining, [])"
    using sel inkeys by (simp add: remove_default_def delete_filter remaining_def)
  have bulk_eq: "create_svis serials remaining = bulk"
    unfolding create_svis_def bulk_def
    by (rule arg_cong[where f = concat], rule map_cong) auto
  have run: "configure_meraki dash ?gw serials svi_data shut_interfaces intf_configs
           = (log1 @ bulk @ fst (update_ports serials shut_interfaces intf_configs),
              snd (update_ports serials shut_interfaces intf_configs))"
    by (simp add: configure_meraki_def scan rd bulk_eq split: prod.splits)
  have len: "length bulk = length remaining * length serials"
    unfolding bulk_def by (rule length_concat_product)
  have pos: "\<forall>i < length remaining. \<forall>j < length serials.
               bulk ! (i * length serials + j)
                 = CreateDeviceSwitchRoutingInterface (serials ! j) (snd (remaining ! i))"
    unfolding bulk_def by (auto simp: nth_concat_product)
  have other: "vlanId r \<noteq> default_svi"
    if "CreateDeviceSwitchRoutingInterface serial r \<in> set bulk" for serial r
  proof -
    from that obtain entry where en: "entry \<in> set svi_data1" "fst entry \<noteq> default_svi" "r = snd entry"
      by (auto simp: bulk_def remaining_def)
    from en(1) sd1 obtain e0 where e0: "e0 \<in> set svi_data" "entry = flag_gateway ?gw e0" by auto
    with keys have "vlanId (snd entry) = fst entry" by simp
    with en show ?thesis by simp
  qed
  have one: "length remaining = length svi_data - 1" if "distinct (map fst svi_data)"
  proof -
    have m: "map fst svi_data1 = map fst svi_data" by (simp add: sd1 comp_def)
    with that have "distinct (map fst svi_data1)" by simp
    from length_filter_other_keys[OF this inkeys] show ?thesis
      by (simp add: remaining_def sd1)
  qed
  from remaining_def bulk_def run len pos other one sd1 applied show ?thesis by blast
qed

text \<open>Three SVIs, as parsed from three blocks, and two devices, the gateway \<^verbatim>\<open>10.0.2.1\<close>
  in the subnet of VLAN 20: the scan applies VLAN 20 with the gateway on both devices,
  and the bulk step applies VLAN 10 on both devices and then VLAN 30 on both devices.\<close>

theorem default_svi_removed_before_bulk_witness:
  "parse_svi_data [block ''interface Vlan10'' ['' ip address 10.0.1.1 255.255.255.0''],
                   block ''interface Vlan20'' ['' ip address 10.0.2.2 255.255.255.0''],
                   block ''interface Vlan30'' ['' ip address 10.0.3.1 255.255.255.0'']]
     = Inr [(''10'', vlan_record ''10'' ''10.0.1.1'' ''10.0.1.0/24'' None),
            (''20'', vlan_record ''20'' ''10.0.2.2'' ''10.0.2.0/24'' None),
            (''30'', vlan_record ''30'' ''10.0.3.1'' ''10.0.3.0/24'' None)]
   \<and> scan_serials (\<lambda>log serial. []) ''10.0.2.1'' [''Q2XX-AAAA-0001'', ''Q2XX-AAAA-0002'']
     [(''10'', vlan_record ''10'' ''10.0.1.1'' ''10.0.1.0/24'' None),
      (''20'', vlan_record ''20'' ''10.0.2.2'' ''10.0.2.0/24'' None),
      (''30'', vlan_record ''30'' ''10.0.3.1'' ''10.0.3.0/24'' None)] [] []
   = ([(''10'', vlan_record ''10'' ''10.0.1.1'' ''10.0.1.0/24'' None),
       (''20'', vlan_record ''20'' ''10.0.2.2'' ''10.0.2.0/24'' (Some ''10.0.2.1'')),
       (''30'', vlan_record ''30'' ''10.0.3.1'' ''10.0.3.0/24'' None)],
      ''20'',
      [GetDeviceSwitchRoutingInterfaces ''Q2XX-AAAA-0001'',
       CreateDeviceSwitchRoutingInterface ''Q2XX-AAAA-0001''
         (vlan_record ''20'' ''10.0.2.2'' ''10.0.2.0/24'' (Some ''10.0.2.1'')),
       GetDeviceSwitchRoutingInterfaces ''Q2XX-AAAA-0002'',
       CreateDeviceSwitchRoutingInterface ''Q2XX-AAAA-0002''
         (vlan_record ''20'' ''10.0.2.2'' ''10.0.2.0/24'' (Some ''10.0.2.1''))],
      Finished)
   \<and> configure_meraki (\<lambda>log serial. []) ''10.0.2.1'' [''Q2XX-AAAA-0001'', ''Q2XX-AAAA-0002'']
     [(''10'', vlan_record ''10'' ''10.0.1.1'' ''10.0.1.0/24'' None),
      (''20'', vlan_record ''20'' ''10.0.2.2'' ''10.0.2.0/24'' None),
      (''30'', vlan_record ''30'' ''10.0.3.1'' ''10.0.3.0/24'' None)] [] []
   = ([GetDeviceSwitchRoutingInterfaces ''Q2XX-AAAA-0001'',
       CreateDeviceSwitchRoutingInterface ''Q2XX-AAAA-0001''
         (vlan_record ''20'' ''10.0.2.2'' ''10.0.2.0/24'' (Some ''10.0.2.1'')),
       GetDeviceSwitchRoutingInterfaces ''Q2XX-AAAA-0002'',
       CreateDeviceSwitchRoutingInterface ''Q2XX-AAAA-0002''
         (vlan_record ''20'' ''10.0.2.2'' ''10.0.2.0/24'' (Some ''10.0.2.1'')),
       CreateDeviceSwitchRoutingInterface ''Q2XX-AAAA-0001''
         (vlan_record ''10'' ''10.0.1.1'' ''10.0.1.0/24'' None),
       CreateDeviceSwitchRoutingInterface ''Q2XX-AAAA-0002''
         (vlan_record ''10'' ''10.0.1.1'' ''10.0.1.0/24'' None),
       CreateDeviceSwitchRoutingInterface ''Q2XX-AAAA-0001''
         (vlan_record ''30'' ''10.0.3.1'' ''10.0.3.0/24'' None),
       CreateDeviceSwitchRoutingInterface ''Q2XX-AAAA-0002''
         (vlan_record ''30'' ''10.0.3.1'' ''10.0.3.0/24'' None)],
      Finished)"
proof -
  have h: "scan_serials (\<lambda>log serial. []) ''10.0.2.1'' [''Q2XX-AAAA-0001'', ''Q2XX-AAAA-0002'']
     [(''10'', vlan_record ''10'' ''10.0.1.1'' ''10.0.1.0/24'' None),
      (''20'', vlan_record ''20'' ''10.0.2.2'' ''10.0.2.0/24'' None),
      (''30'', vlan_record ''30'' ''10.0.3.1'' ''10.0.3.0/24'' None)] [] []
   = ([(''10'', vlan_record ''10'' ''10.0.1.1'' ''10.0.1.0/24'' None),
       (''20'', vlan_record ''20'' ''10.0.2.2'' ''10.0.2.0/24'' (Some ''10.0.2.1'')),
       (''30'', vlan_record ''30'' ''10.0.3.1'' ''10.0.3.0/24'' None)],
      ''20'',
      [GetDeviceSwitchRoutingInterfaces ''Q2XX-AAAA-0001'',
       CreateDeviceSwitchRoutingInterface ''Q2XX-AAAA-0001''
         (vlan_record ''20'' ''10.0.2.2'' ''10.0.2.0/24'' (Some ''10.0.2.1'')),
       GetDeviceSwitchRoutingInterfaces ''Q2XX-AAAA-0002'',
       CreateDeviceSwitchRoutingInterface ''Q2XX-AAAA-0002''
         (vlan_record ''20'' ''10.0.2.2'' ''10.0.2.0/24'' (Some ''10.0.2.1''))],
      Finished)"
    by code_simp
  have n: "''20'' \<noteq> []" by simp
  have p: "parse_svi_data [block ''interface Vlan10'' ['' ip address 10.0.1.1 255.255.255.0''],
                   block ''interface Vlan20'' ['' ip address 10.0.2.2 255.255.255.0''],
                   block ''interface Vlan30'' ['' ip address 10.0.3.1 255.255.255.0'']]
     = Inr [(''10'', vlan_record ''10'' ''10.0.1.1'' ''10.0.1.0/24'' None),
            (''20'', vlan_record ''20'' ''10.0.2.2'' ''10.0.2.0/24'' None),
            (''30'', vlan_record ''30'' ''10.0.3.1'' ''10.0.3.0/24'' None)]"
    by code_simp
  from parse_svi_data_keys[OF p]
  have k: "\<forall>entry \<in> set [(''10'', vlan_record ''10'' ''10.0.1.1'' ''10.0.1.0/24'' None),
            (''20'', vlan_record ''20'' ''10.0.2.2'' ''10.0.2.0/24'' None),
            (''30'', vlan_record ''30'' ''10.0.3.1'' ''10.0.3.0/24'' None)]. vlanId (snd entry) = fst entry"
    by (rule conjunct1)
  from default_svi_removed_before_bulk[OF h n k, of "[]" "[]"]
  have "configure_meraki (\<lambda>log serial. []) ''10.0.2.1'' [''Q2XX-AAAA-0001'', ''Q2XX-AAAA-0002'']
     [(''10'', vlan_record ''10'' ''10.0.1.1'' ''10.0.1.0/24'' None),
      (''20'', vlan_record ''20'' ''10.0.2.2'' ''10.0.2.0/24'' None),
      (''30'', vlan_record ''30'' ''10.0.3.1'' ''10.0.3.0/24'' None)] [] []
    = ([GetDeviceSwitchRoutingInterfaces ''Q2XX-AAAA-0001'',
       CreateDeviceSwitchRoutingInterface ''Q2XX-AAAA-0001''
         (vlan_record ''20'' ''10.0.2.2'' ''10.0.2.0/24'' (Some ''10.0.2.1'')),
       GetDeviceSwitchRoutingInterfaces ''Q2XX-AAAA-0002'',
       CreateDeviceSwitchRoutingInterface ''Q2XX-AAAA-0002''
         (vlan_record ''20'' ''10.0.2.2'' ''10.0.2.0/24'' (Some ''10.0.2.1''))]
       @ concat (map (\<lambda>entry.
                      map (\<lambda>serial. CreateDeviceSwitchRoutingInterface serial (snd entry))
                        [''Q2XX-AAAA-0001'', ''Q2XX-AAAA-0002''])
                  (filter (\<lambda>entry. fst entry \<noteq> ''20'')
                    [(''10'', vlan_record ''10'' ''10.0.1.1'' ''10.0.1.0/24'' None),
                     (''20'', vlan_record ''20'' ''10.0.2.2'' ''10.0.2.0/24'' (Some ''10.0.2.1'')),
                     (''30'', vlan_record ''30'' ''10.0.3.1'' ''10.0.3.0/24'' None)]))
       @ fst (update_ports [''Q2XX-AAAA-0001'', ''Q2XX-AAAA-0002''] [] []),
       snd (update_ports [''Q2XX-AAAA-0001'', ''Q2XX-AAAA-0002''] [] []))"
    by blast
  with p h show ?thesis by simp
qed

section \<open>The target device of an interface record\<close>

text \<open>
  C10. With several target devices every interface record carries its stacking-unit number
  as \<^verbatim>\<open>module\<close>, and the update-port step reads the device as \<^verbatim>\<open>serials[module - 1]\<close>
  with no bounds check. When every module number lies between 1 and the number of serials,
  the loop finishes and each record goes to the device at position \<^verbatim>\<open>module - 1\<close>. A
  record whose module number exceeds the number of serials makes the lookup raise an
  IndexError: it is neither rejected nor sent to a default device, and the loop ends with
  that exception.
\<close>

theorem serial_lookup_by_module:
  "(list_all (\<lambda>entry. case module (snd entry) of
                 Some m \<Rightarrow> 1 \<le> m \<and> m \<le> int (length serials) | None \<Rightarrow> False) intf_configs
      \<longrightarrow> update_ports serials shut_interfaces intf_configs =
            (map (\<lambda>entry. UpdateDeviceSwitchPort
                    (serials ! nat ((case module (snd entry) of Some m \<Rightarrow> m | None \<Rightarrow> 1) - 1))
                    (port_payload shut_interfaces entry)) intf_configs,
             Finished))
   \<and> ((intf, c) \<in> set intf_configs \<and> module c = Some m \<and> int (length serials) < m
      \<longrightarrow> update_port serials shut_interfaces (intf, c) = Inl IndexError
          \<and> snd (update_ports serials shut_interfaces intf_configs) = Raised IndexError)"
proof (intro conjI impI)
  assume a: "list_all (\<lambda>entry. case module (snd entry) of
                 Some m \<Rightarrow> 1 \<le> m \<and> m \<le> int (length serials) | None \<Rightarrow> False) intf_configs"
  have step: "update_port serials shut_interfaces entry =
      Inr (UpdateDeviceSwitchPort
             (serials ! nat ((case module (snd entry) of Some m \<Rightarrow> m | None \<Rightarrow> 1) - 1))
             (port_payload shut_interfaces entry))"
    if "entry \<in> set intf_configs" for entry
  proof -
    obtain i c' where e: "entry = (i, c')" by (cases entry)
    from a that e obtain m' where m: "module c' = Some m'" "1 \<le> m'" "m' \<le> int (length serials)"
      by (auto simp: list_all_iff split: option.splits)
    from update_port_module[OF m] show ?thesis by (simp add: e m)
  qed
  then have "\<forall>entry \<in> set intf_configs. \<exists>ev. update_port serials shut_interfaces entry = Inr ev"
    by blast
  from update_ports_all_ok[OF this]
  show "update_ports serials shut_interfaces intf_configs =
            (map (\<lambda>entry. UpdateDeviceSwitchPort
                    (serials ! nat ((case module (snd entry) of Some m \<Rightarrow> m | None \<Rightarrow> 1) - 1))
                    (port_payload shut_interfaces entry)) intf_configs,
             Finished)"
    using step by simp
next
  assume b: "(intf, c) \<in> set intf_configs \<and> module c = Some m \<and> int (length serials) < m"
  then show e: "update_port serials shut_interfaces (intf, c) = Inl IndexError"
    using update_port_module_above by blast
  from b update_ports_some_error[OF _ e]
  show "snd (update_ports serials shut_interfaces intf_configs) = Raised IndexError" by blast
qed

text \<open>Two devices: unit 2 goes to the second device, unit 3 has no device.\<close>

theorem serial_lookup_by_module_witness:
  "update_ports [''Q2XX-AAAA-0001'', ''Q2XX-AAAA-0002''] []
     [(''GigabitEthernet2/0/7'', plain_port ''7'' (Some 2))]
   = ([UpdateDeviceSwitchPort ''Q2XX-AAAA-0002'' ((plain_port ''7'' None)\<lparr>enabled := Some True\<rparr>)],
      Finished)
   \<and> update_port [''Q2XX-AAAA-0001'', ''Q2XX-AAAA-0002''] []
        (''GigabitEthernet3/0/7'', plain_port ''7'' (Some 3)) = Inl IndexError
   \<and> snd (update_ports [''Q2XX-AAAA-0001'', ''Q2XX-AAAA-0002''] []
        [(''GigabitEthernet3/0/7'', plain_port ''7'' (Some 3))]) = Raised IndexError"
  using
    serial_lookup_by_module[of "[''Q2XX-AAAA-0001'', ''Q2XX-AAAA-0002'']"
      "[(''GigabitEthernet2/0/7'', plain_port ''7'' (Some 2))]" "[]"
      "''GigabitEthernet2/0/7''" "plain_port ''7'' (Some 2)" 2]
    serial_lookup_by_module[of "[''Q2XX-AAAA-0001'', ''Q2XX-AAAA-0002'']"
      "[(''GigabitEthernet3/0/7'', plain_port ''7'' (Some 3))]" "[]"
      "''GigabitEthernet3/0/7''" "plain_port ''7'' (Some 3)" 3]
  by (simp add: plain_port_def port_payload_def)

text \<open>A module number 0 is not rejected either: Python reads the index \<open>-1\<close> from the
  end of the list, and the record goes to the last device.\<close>

lemma module_zero_wraps:
  assumes "module c = Some 0" and "serials \<noteq> []"
  shows "update_port serials shut_interfaces (intf, c)
           = Inr (UpdateDeviceSwitchPort (last serials) (port_payload shut_interfaces (intf, c)))"
proof -
  from assms(2) have "nat (int (length serials) + (0 - 1)) = length serials - 1"
    by (cases serials) simp_all
  moreover from assms(2) have "Suc 0 \<le> length serials"
    by (cases serials) simp_all
  ultimately show ?thesis using assms
    by (simp add: update_port_def port_payload_def Let_def py_index_def last_conv_nth)
qed

end
